theory Spec2Isabelle
  imports Complex_Main "HOL-Library.Word"
begin

section \<open>Metric descriptors and the emission sink\<close>

text \<open>
  The descriptors declared in \<^verbatim>\<open>libvirtmetrics.go\<close>, one constructor per
  \<^verbatim>\<open>prometheus.NewDesc\<close> variable, in declaration order. Their fully qualified
  names are pairwise different, so a descriptor stands for its metric name.
\<close>

datatype Desc =
    libvirtPoolInfoCapacity
  | libvirtPoolInfoAllocation
  | libvirtPoolInfoAvailable
  | libvirtVersionsInfoDesc
  | libvirtDomainInfoMetaDesc
  | libvirtDomainInfoMaxMemBytesDesc
  | libvirtDomainInfoMemoryUsageBytesDesc
  | libvirtDomainInfoNrVirtCPUDesc
  | libvirtDomainInfoCPUTimeDesc
  | libvirtDomainInfoVirDomainState
  | libvirtDomainVcpuTimeDesc
  | libvirtDomainVcpuDelayDesc
  | libvirtDomainVcpuStateDesc
  | libvirtDomainVcpuCPUDesc
  | libvirtDomainVcpuWaitDesc
  | libvirtDomainMetaBlockDesc
  | libvirtDomainBlockRdBytesDesc
  | libvirtDomainBlockRdReqDesc
  | libvirtDomainBlockRdTotalTimeSecondsDesc
  | libvirtDomainBlockWrBytesDesc
  | libvirtDomainBlockWrReqDesc
  | libvirtDomainBlockWrTotalTimesDesc
  | libvirtDomainBlockFlushReqDesc
  | libvirtDomainBlockFlushTotalTimeSecondsDesc
  | libvirtDomainBlockAllocationDesc
  | libvirtDomainBlockCapacityBytesDesc
  | libvirtDomainBlockPhysicalSizeBytesDesc
  | libvirtDomainBlockTotalBytesSecDesc
  | libvirtDomainBlockWriteBytesSecDesc
  | libvirtDomainBlockReadBytesSecDesc
  | libvirtDomainBlockTotalIopsSecDesc
  | libvirtDomainBlockWriteIopsSecDesc
  | libvirtDomainBlockReadIopsSecDesc
  | libvirtDomainBlockTotalBytesSecMaxDesc
  | libvirtDomainBlockWriteBytesSecMaxDesc
  | libvirtDomainBlockReadBytesSecMaxDesc
  | libvirtDomainBlockTotalIopsSecMaxDesc
  | libvirtDomainBlockWriteIopsSecMaxDesc
  | libvirtDomainBlockReadIopsSecMaxDesc
  | libvirtDomainBlockTotalBytesSecMaxLengthDesc
  | libvirtDomainBlockWriteBytesSecMaxLengthDesc
  | libvirtDomainBlockReadBytesSecMaxLengthDesc
  | libvirtDomainBlockTotalIopsSecMaxLengthDesc
  | libvirtDomainBlockWriteIopsSecMaxLengthDesc
  | libvirtDomainBlockReadIopsSecMaxLengthDesc
  | libvirtDomainBlockSizeIopsSecDesc
  | libvirtDomainMetaInterfacesDesc
  | libvirtDomainInterfaceRxBytesDesc
  | libvirtDomainInterfaceRxPacketsDesc
  | libvirtDomainInterfaceRxErrsDesc
  | libvirtDomainInterfaceRxDropDesc
  | libvirtDomainInterfaceTxBytesDesc
  | libvirtDomainInterfaceTxPacketsDesc
  | libvirtDomainInterfaceTxErrsDesc
  | libvirtDomainInterfaceTxDropDesc
  | libvirtDomainMemoryStatMajorFaultTotalDesc
  | libvirtDomainMemoryStatMinorFaultTotalDesc
  | libvirtDomainMemoryStatUnusedBytesDesc
  | libvirtDomainMemoryStatAvailableBytesDesc
  | libvirtDomainMemoryStatActualBaloonBytesDesc
  | libvirtDomainMemoryStatRssBytesDesc
  | libvirtDomainMemoryStatUsableBytesDesc
  | libvirtDomainMemoryStatDiskCachesBytesDesc
  | libvirtDomainMemoryStatUsedPercentDesc

datatype ValueType = CounterValue | GaugeValue

text \<open>
  A constant metric as built by \<^verbatim>\<open>prometheus.MustNewConstMetric\<close>. A
  \<^verbatim>\<open>float64\<close> is modelled by a real number: rounding is abstracted away, every
  conversion \<^verbatim>\<open>float64(n)\<close> of an unsigned integer is the number itself. At every
  call site of the source the number of label values is the arity of the descriptor,
  so the arity panic of \<^verbatim>\<open>MustNewConstMetric\<close> is not a branch of the model.
\<close>

record Metric =
  metricDesc :: Desc
  valueType :: ValueType
  val :: real
  labelValues :: "string list"

definition MustNewConstMetric :: "Desc \<Rightarrow> ValueType \<Rightarrow> real \<Rightarrow> string list \<Rightarrow> Metric" where
  "MustNewConstMetric d t v ls = \<lparr>metricDesc = d, valueType = t, val = v, labelValues = ls\<rparr>"

text \<open>
  The mutable world of the collector: the channel \<^verbatim>\<open>ch\<close> (append only), the lines
  written by \<^verbatim>\<open>log.Printf\<close>, and the package variable \<^verbatim>\<open>errorsMap\<close>, a map to
  the empty struct, that is a set of keys. The variable is declared without an
  initial value in \<^verbatim>\<open>libvirtmetrics.go\<close>; the model starts from any set.
\<close>

record state =
  ch :: "Metric list"
  logs :: "string list"
  errorsMap :: "string set"

definition send :: "Metric list \<Rightarrow> state \<Rightarrow> state" where
  "send ms s = s\<lparr>ch := ch s @ ms\<rparr>"

definition log_Printf :: "string \<Rightarrow> state \<Rightarrow> state" where
  "log_Printf line s = s\<lparr>logs := logs s @ [line]\<rparr>"

text \<open>The metrics a call appended to the channel.\<close>

definition emitted :: "state \<Rightarrow> state \<Rightarrow> Metric list" where
  "emitted s s' = drop (length (ch s)) (ch s')"

section \<open>Errors\<close>

text \<open>
  A Go \<^verbatim>\<open>error\<close> is either a \<^verbatim>\<open>libvirt.Error\<close> (of which the code reads
  \<^verbatim>\<open>Code\<close> and the message) or some other error value. The two error numbers are
  those of libvirt's \<^verbatim>\<open>virErrorNumber\<close>.
\<close>

datatype go_error = LibvirtError int string | OtherError string

definition ERR_OPERATION_INVALID :: int where
  "ERR_OPERATION_INVALID = 55"

definition ERR_OPERATION_UNSUPPORTED :: int where
  "ERR_OPERATION_UNSUPPORTED = 84"

text \<open>
  The type assertion \<^verbatim>\<open>lverr, ok := err.(libvirt.Error)\<close>: the pair of
  \<^verbatim>\<open>lverr.Code\<close> and \<^verbatim>\<open>ok\<close>. When the assertion fails \<^verbatim>\<open>lverr\<close> is the
  zero value, whose code is 0.
\<close>

fun assertLibvirtError :: "go_error \<Rightarrow> int \<times> bool" where
  "assertLibvirtError (LibvirtError code msg) = (code, True)"
| "assertLibvirtError (OtherError msg) = (0, False)"

fun Error :: "go_error \<Rightarrow> string" where
  "Error (LibvirtError code msg) = msg"
| "Error (OtherError msg) = msg"

text \<open>
  How a call of the source ends: \<^verbatim>\<open>return nil\<close>, \<^verbatim>\<open>return err\<close>, or the
  run-time panic of a nil pointer dereference. Inside a function body \<open>None\<close> means
  that control goes on to the next statement.
\<close>

datatype outcome = Nil | Err go_error | NilDeref

section \<open>Decimal formatting\<close>

text \<open>\<^verbatim>\<open>strconv.FormatInt(i, 10)\<close> and the verb \<^verbatim>\<open>%d\<close> of \<^verbatim>\<open>fmt.Sprintf\<close>.\<close>

definition digit :: "nat \<Rightarrow> char" where
  "digit n = ''0123456789'' ! (n mod 10)"

fun digits :: "nat \<Rightarrow> string" where
  "digits n = (if n < 10 then [digit n] else digits (n div 10) @ [digit n])"

declare digits.simps [simp del]

definition FormatInt :: "int \<Rightarrow> string" where
  "FormatInt i = (if i < 0 then CHR ''-'' # digits (nat (- i)) else digits (nat i))"

section \<open>Version decoding (LibvirtSetup)\<close>

text \<open>
  \<^verbatim>\<open>GetVersion\<close>, \<^verbatim>\<open>GetLibVersion\<close> and \<^verbatim>\<open>libvirt.GetVersion\<close> return a
  \<^verbatim>\<open>uint32\<close>. \<^verbatim>\<open>LibvirtSetup\<close> formats each of the three with the same
  expression; \<open>versionParts\<close> is the triple of arguments given to
  \<^verbatim>\<open>fmt.Sprintf("%d.%d.%d", ...)\<close>, in unsigned 32-bit arithmetic.
\<close>

definition versionParts :: "32 word \<Rightarrow> 32 word \<times> 32 word \<times> 32 word" where
  "versionParts v = (v div 1000000 mod 1000, v div 1000 mod 1000, v mod 1000)"

definition versionString :: "32 word \<Rightarrow> string" where
  "versionString v =
     (case versionParts v of (major, minor, patch) \<Rightarrow>
        digits (unat major) @ ''.'' @ digits (unat minor) @ ''.'' @ digits (unat patch))"

definition versionsInfo :: "32 word \<Rightarrow> 32 word \<Rightarrow> 32 word \<Rightarrow> Metric" where
  "versionsInfo hypervisorVersionNum libvirtdVersionNum libraryVersionNum =
     MustNewConstMetric libvirtVersionsInfoDesc GaugeValue 1
       [versionString hypervisorVersionNum, versionString libvirtdVersionNum,
        versionString libraryVersionNum]"

section \<open>Data of the libvirt binding and of the descriptor schema\<close>

text \<open>
  The structs of \<^verbatim>\<open>libvirt.org/go/libvirt\<close> and of the package
  \<^verbatim>\<open>libvirtSchema\<close>, with the fields that the collector reads. A \<^verbatim>\<open>uint64\<close>,
  \<^verbatim>\<open>uint32\<close> or \<^verbatim>\<open>uint\<close> field is a natural number, a signed field an integer:
  the collector does no integer arithmetic on them, it only converts them to
  \<^verbatim>\<open>float64\<close> or prints them.
\<close>

record DomainMemoryStat =
  Tag :: int
  Val :: nat

record VirDomainMemoryStats =
  MajorFault :: nat
  MinorFault :: nat
  Unused :: nat
  Available :: nat
  ActualBalloon :: nat
  Rss :: nat
  Usable :: nat
  DiskCaches :: nat

record StoragePoolInfo =
  Capacity :: nat
  Allocation :: nat
  Available :: nat

text \<open>A storage pool handle: the results of the three calls made on it.\<close>

record StoragePool =
  Refresh :: "go_error option"
  GetName :: "go_error + string"
  GetInfo :: "go_error + StoragePoolInfo"

record DomainInfo =
  State :: int
  MaxMem :: nat
  Memory :: nat
  NrVirtCpu :: nat
  CpuTime :: nat

record DomainVcpuInfo =
  Number :: nat
  State :: int
  CpuTime :: nat
  Cpu :: int

record DomainStatsVcpu =
  WaitSet :: bool
  Wait :: nat
  DelaySet :: bool
  Delay :: nat

record DomainStatsBlock =
  Name :: string
  PathSet :: bool
  Path :: string
  RdBytesSet :: bool
  RdBytes :: nat
  RdReqsSet :: bool
  RdReqs :: nat
  RdTimesSet :: bool
  RdTimes :: nat
  WrBytesSet :: bool
  WrBytes :: nat
  WrReqsSet :: bool
  WrReqs :: nat
  WrTimesSet :: bool
  WrTimes :: nat
  FlReqsSet :: bool
  FlReqs :: nat
  FlTimesSet :: bool
  FlTimes :: nat
  AllocationSet :: bool
  Allocation :: nat
  CapacitySet :: bool
  Capacity :: nat
  PhysicalSet :: bool
  Physical :: nat

record DomainStatsNet =
  Name :: string
  RxBytesSet :: bool
  RxBytes :: nat
  RxPktsSet :: bool
  RxPkts :: nat
  RxErrsSet :: bool
  RxErrs :: nat
  RxDropSet :: bool
  RxDrop :: nat
  TxBytesSet :: bool
  TxBytes :: nat
  TxPktsSet :: bool
  TxPkts :: nat
  TxErrsSet :: bool
  TxErrs :: nat
  TxDropSet :: bool
  TxDrop :: nat

record DomainBlockIoTuneParameters =
  TotalBytesSecSet :: bool
  TotalBytesSec :: nat
  ReadBytesSecSet :: bool
  ReadBytesSec :: nat
  WriteBytesSecSet :: bool
  WriteBytesSec :: nat
  TotalIopsSecSet :: bool
  TotalIopsSec :: nat
  ReadIopsSecSet :: bool
  ReadIopsSec :: nat
  WriteIopsSecSet :: bool
  WriteIopsSec :: nat
  TotalBytesSecMaxSet :: bool
  TotalBytesSecMax :: nat
  ReadBytesSecMaxSet :: bool
  ReadBytesSecMax :: nat
  WriteBytesSecMaxSet :: bool
  WriteBytesSecMax :: nat
  TotalIopsSecMaxSet :: bool
  TotalIopsSecMax :: nat
  ReadIopsSecMaxSet :: bool
  ReadIopsSecMax :: nat
  WriteIopsSecMaxSet :: bool
  WriteIopsSecMax :: nat
  TotalBytesSecMaxLengthSet :: bool
  TotalBytesSecMaxLength :: nat
  ReadBytesSecMaxLengthSet :: bool
  ReadBytesSecMaxLength :: nat
  WriteBytesSecMaxLengthSet :: bool
  WriteBytesSecMaxLength :: nat
  TotalIopsSecMaxLengthSet :: bool
  TotalIopsSecMaxLength :: nat
  ReadIopsSecMaxLengthSet :: bool
  ReadIopsSecMaxLength :: nat
  WriteIopsSecMaxLengthSet :: bool
  WriteIopsSecMaxLength :: nat
  SizeIopsSecSet :: bool
  SizeIopsSec :: nat

text \<open>
  \<^verbatim>\<open>libvirtSchema.Disk\<close> and \<^verbatim>\<open>libvirtSchema.Interface\<close>; a nested field
  \<^verbatim>\<open>Target.Device\<close> is written \<open>Target_Device\<close>.
\<close>

record Disk =
  Serial :: string
  DiskType :: string
  Target_Device :: string
  Target_Bus :: string
  Driver_Type :: string
  Driver_Cache :: string
  Driver_Discard :: string
  Source_Name :: string

record Interface =
  Target_Device :: string
  Source_Bridge :: string
  Virtualport_Parameters_InterfaceID :: string

text \<open>
  \<^verbatim>\<open>libvirtSchema.Domain\<close>: the device lists and the fields of
  \<^verbatim>\<open>Metadata.NovaInstance\<close>, named by their last component.
\<close>

record Domain_desc =
  Devices_Disks :: "Disk list"
  Devices_Interfaces :: "Interface list"
  NovaName :: string
  FlavorName :: string
  UserName :: string
  UserUUID :: string
  ProjectName :: string
  ProjectUUID :: string
  RootType :: string
  RootUUID :: string

text \<open>
  A domain handle: the result of each call that \<^verbatim>\<open>CollectDomain\<close> makes on
  \<^verbatim>\<open>stat.Domain\<close>. \<^verbatim>\<open>GetBlockIoTune\<close> is called with a device name (and flags 0).
\<close>

record Domain =
  GetName :: "go_error + string"
  GetUUIDString :: "go_error + string"
  GetXMLDesc :: "go_error + string"
  GetInfo :: "go_error + DomainInfo"
  GetVcpus :: "go_error + DomainVcpuInfo list"
  GetBlockIoTune :: "string \<Rightarrow> go_error + DomainBlockIoTuneParameters"
  MemoryStats :: "go_error + DomainMemoryStat list"

record DomainStats =
  Domain :: Domain
  Vcpu :: "DomainStatsVcpu list"
  Net :: "DomainStatsNet list"
  Block :: "DomainStatsBlock list"

section \<open>WriteErrorOnce\<close>

definition WriteErrorOnce :: "string \<Rightarrow> string \<Rightarrow> state \<Rightarrow> state" where
  "WriteErrorOnce err name s =
     (if name \<notin> errorsMap s
      then (log_Printf err s)\<lparr>errorsMap := insert name (errorsMap s)\<rparr>
      else s)"

section \<open>memoryStatCollect\<close>

text \<open>The body of the loop: the \<^verbatim>\<open>switch\<close> on the tag, with no default case;
  \<open>acc\<close> is the local variable \<^verbatim>\<open>MemoryStats\<close>.\<close>

definition memoryStatCase :: "VirDomainMemoryStats \<Rightarrow> DomainMemoryStat \<Rightarrow> VirDomainMemoryStats" where
  "memoryStatCase acc domainmemorystat =
     (let tag = Tag domainmemorystat in
      if tag = 2 then acc\<lparr>MajorFault := Val domainmemorystat\<rparr>
      else if tag = 3 then acc\<lparr>MinorFault := Val domainmemorystat\<rparr>
      else if tag = 4 then acc\<lparr>Unused := Val domainmemorystat\<rparr>
      else if tag = 5 then acc\<lparr>VirDomainMemoryStats.Available := Val domainmemorystat\<rparr>
      else if tag = 6 then acc\<lparr>ActualBalloon := Val domainmemorystat\<rparr>
      else if tag = 7 then acc\<lparr>Rss := Val domainmemorystat\<rparr>
      else if tag = 8 then acc\<lparr>Usable := Val domainmemorystat\<rparr>
      else if tag = 10 then acc\<lparr>DiskCaches := Val domainmemorystat\<rparr>
      else acc)"

text \<open>The zero value of the struct, as \<^verbatim>\<open>var MemoryStats\<close> declares it.\<close>

definition zeroMemoryStats :: VirDomainMemoryStats where
  "zeroMemoryStats =
     \<lparr>MajorFault = 0, MinorFault = 0, Unused = 0,
      VirDomainMemoryStats.Available = 0, ActualBalloon = 0,
      Rss = 0, Usable = 0, DiskCaches = 0\<rparr>"

definition memoryStatCollect :: "DomainMemoryStat list \<Rightarrow> VirDomainMemoryStats" where
  "memoryStatCollect memorystat = foldl memoryStatCase zeroMemoryStats memorystat"

section \<open>CollectStoragePool\<close>

definition CollectStoragePool :: "StoragePool \<Rightarrow> state \<Rightarrow> go_error option \<times> state" where
  "CollectStoragePool pool s =
     (case Refresh pool of
        Some err \<Rightarrow> (Some err, s)
      | None \<Rightarrow>
     (case StoragePool.GetName pool of
        Inl err \<Rightarrow> (Some err, s)
      | Inr pool_name \<Rightarrow>
     (case StoragePool.GetInfo pool of
        Inl err \<Rightarrow> (Some err, s)
      | Inr pool_info \<Rightarrow>
          (None,
           send [MustNewConstMetric libvirtPoolInfoCapacity GaugeValue
                   (real (StoragePoolInfo.Capacity pool_info)) [pool_name],
                 MustNewConstMetric libvirtPoolInfoAllocation GaugeValue
                   (real (StoragePoolInfo.Allocation pool_info)) [pool_name],
                 MustNewConstMetric libvirtPoolInfoAvailable GaugeValue
                   (real (StoragePoolInfo.Available pool_info)) [pool_name]] s))))"

section \<open>CollectDomain\<close>

subsection \<open>Domain info\<close>

text \<open>The six metrics sent once \<^verbatim>\<open>GetInfo\<close> has returned, in order.\<close>

definition infoMetrics :: "string \<Rightarrow> string \<Rightarrow> Domain_desc \<Rightarrow> DomainInfo \<Rightarrow> Metric list" where
  "infoMetrics domainName domainUUID desc info =
     [MustNewConstMetric libvirtDomainInfoMetaDesc GaugeValue 1
        [domainName, domainUUID, NovaName desc, FlavorName desc, UserName desc, UserUUID desc,
         ProjectName desc, ProjectUUID desc, RootType desc, RootUUID desc],
      MustNewConstMetric libvirtDomainInfoMaxMemBytesDesc GaugeValue
        (real (MaxMem info) * 1024) [domainName],
      MustNewConstMetric libvirtDomainInfoMemoryUsageBytesDesc GaugeValue
        (real (Memory info) * 1024) [domainName],
      MustNewConstMetric libvirtDomainInfoNrVirtCPUDesc GaugeValue
        (real (NrVirtCpu info)) [domainName],
      MustNewConstMetric libvirtDomainInfoCPUTimeDesc CounterValue
        (real (DomainInfo.CpuTime info) / 1000 / 1000 / 1000) [domainName],
      MustNewConstMetric libvirtDomainInfoVirDomainState GaugeValue
        (real_of_int (DomainInfo.State info)) [domainName]]"

subsection \<open>Virtual CPUs\<close>

text \<open>The body of the loop over the result of \<^verbatim>\<open>GetVcpus\<close>.\<close>

definition vcpuInfoMetrics :: "string \<Rightarrow> DomainVcpuInfo \<Rightarrow> Metric list" where
  "vcpuInfoMetrics domainName vcpu =
     [MustNewConstMetric libvirtDomainVcpuStateDesc GaugeValue
        (real_of_int (DomainVcpuInfo.State vcpu))
        [domainName, FormatInt (int (Number vcpu))],
      MustNewConstMetric libvirtDomainVcpuTimeDesc CounterValue
        (real (DomainVcpuInfo.CpuTime vcpu) / 1000 / 1000 / 1000)
        [domainName, FormatInt (int (Number vcpu))],
      MustNewConstMetric libvirtDomainVcpuCPUDesc GaugeValue
        (real_of_int (Cpu vcpu))
        [domainName, FormatInt (int (Number vcpu))]]"

text \<open>
  The body of the loop \<^verbatim>\<open>for cpuNum, vcpu := range stat.Vcpu\<close>: \<open>cpuNum\<close> is the
  position in the array.
\<close>

definition vcpuWaitDelayMetrics :: "string \<Rightarrow> nat \<times> DomainStatsVcpu \<Rightarrow> Metric list" where
  "vcpuWaitDelayMetrics domainName = (\<lambda>(cpuNum, vcpu).
     (if WaitSet vcpu
      then [MustNewConstMetric libvirtDomainVcpuWaitDesc CounterValue
              (real (Wait vcpu) / 1000 / 1000 / 1000) [domainName, FormatInt (int cpuNum)]]
      else []) @
     (if DelaySet vcpu
      then [MustNewConstMetric libvirtDomainVcpuDelayDesc CounterValue
              (real (Delay vcpu) / 1000000000) [domainName, FormatInt (int cpuNum)]]
      else []))"

text \<open>
  From \<^verbatim>\<open>GetVcpus\<close> to the end of its \<^verbatim>\<open>else\<close> branch. Both loops are inside the
  branch taken when the call succeeded.
\<close>

definition collectVcpus :: "string \<Rightarrow> DomainStats \<Rightarrow> state \<Rightarrow> outcome option \<times> state" where
  "collectVcpus domainName stat s =
     (case GetVcpus (Domain stat) of
        Inl err \<Rightarrow>
          (case assertLibvirtError err of (code, ok) \<Rightarrow>
             if \<not> ok \<or> code \<noteq> ERR_OPERATION_INVALID then (Some (Err err), s) else (None, s))
      | Inr domainStatsVcpu \<Rightarrow>
          (None,
           send (concat (map (vcpuWaitDelayMetrics domainName) (enumerate 0 (Vcpu stat))))
             (send (concat (map (vcpuInfoMetrics domainName) domainStatsVcpu)) s)))"

subsection \<open>Block devices\<close>

text \<open>
  The search of \<^verbatim>\<open>desc.Devices.Disks\<close> for the first entry whose target device is
  the name of the bulk-reported device: \<^verbatim>\<open>Device\<close> stays \<^verbatim>\<open>nil\<close> (\<open>None\<close>) and
  \<^verbatim>\<open>DiskSource\<close> stays empty when there is none.
\<close>

fun findDisk :: "DomainStatsBlock \<Rightarrow> Disk list \<Rightarrow> string \<times> Disk option" where
  "findDisk disk [] = ('''', None)"
| "findDisk disk (dev # devs) =
     (if Disk.Target_Device dev = DomainStatsBlock.Name disk
      then (if PathSet disk then Path disk else Source_Name dev, Some dev)
      else findDisk disk devs)"

definition blockMeta :: "string \<Rightarrow> DomainStatsBlock \<Rightarrow> string \<Rightarrow> Disk \<Rightarrow> Metric" where
  "blockMeta domainName disk DiskSource Device =
     MustNewConstMetric libvirtDomainMetaBlockDesc GaugeValue 1
       [domainName, DomainStatsBlock.Name disk, DiskSource, Serial Device, Target_Bus Device,
        DiskType Device, Driver_Type Device, Driver_Cache Device, Driver_Discard Device]"

text \<open>The eleven guarded sends on the bulk counters of a device, in order.\<close>

definition blockStatMetrics :: "string \<Rightarrow> DomainStatsBlock \<Rightarrow> Metric list" where
  "blockStatMetrics domainName disk =
     (if RdBytesSet disk
      then [MustNewConstMetric libvirtDomainBlockRdBytesDesc CounterValue
              (real (RdBytes disk)) [domainName, DomainStatsBlock.Name disk]]
      else []) @
     (if RdReqsSet disk
      then [MustNewConstMetric libvirtDomainBlockRdReqDesc CounterValue
              (real (RdReqs disk)) [domainName, DomainStatsBlock.Name disk]]
      else []) @
     (if RdTimesSet disk
      then [MustNewConstMetric libvirtDomainBlockRdTotalTimeSecondsDesc CounterValue
              (real (RdTimes disk) / 1000000000) [domainName, DomainStatsBlock.Name disk]]
      else []) @
     (if WrBytesSet disk
      then [MustNewConstMetric libvirtDomainBlockWrBytesDesc CounterValue
              (real (WrBytes disk)) [domainName, DomainStatsBlock.Name disk]]
      else []) @
     (if WrReqsSet disk
      then [MustNewConstMetric libvirtDomainBlockWrReqDesc CounterValue
              (real (WrReqs disk)) [domainName, DomainStatsBlock.Name disk]]
      else []) @
     (if WrTimesSet disk
      then [MustNewConstMetric libvirtDomainBlockWrTotalTimesDesc CounterValue
              (real (WrTimes disk) / 1000000000) [domainName, DomainStatsBlock.Name disk]]
      else []) @
     (if FlReqsSet disk
      then [MustNewConstMetric libvirtDomainBlockFlushReqDesc CounterValue
              (real (FlReqs disk)) [domainName, DomainStatsBlock.Name disk]]
      else []) @
     (if FlTimesSet disk
      then [MustNewConstMetric libvirtDomainBlockFlushTotalTimeSecondsDesc CounterValue
              (real (FlTimes disk) / 1000000000) [domainName, DomainStatsBlock.Name disk]]
      else []) @
     (if AllocationSet disk
      then [MustNewConstMetric libvirtDomainBlockAllocationDesc GaugeValue
              (real (DomainStatsBlock.Allocation disk)) [domainName, DomainStatsBlock.Name disk]]
      else []) @
     (if CapacitySet disk
      then [MustNewConstMetric libvirtDomainBlockCapacityBytesDesc GaugeValue
              (real (DomainStatsBlock.Capacity disk)) [domainName, DomainStatsBlock.Name disk]]
      else []) @
     (if PhysicalSet disk
      then [MustNewConstMetric libvirtDomainBlockPhysicalSizeBytesDesc GaugeValue
              (real (Physical disk)) [domainName, DomainStatsBlock.Name disk]]
      else [])"

text \<open>The nineteen guarded sends on the result of \<^verbatim>\<open>GetBlockIoTune\<close>, in order.\<close>

definition blockIoTuneMetrics ::
  "string \<Rightarrow> DomainStatsBlock \<Rightarrow> DomainBlockIoTuneParameters \<Rightarrow> Metric list" where
  "blockIoTuneMetrics domainName disk blockIOTuneParams =
     (if TotalBytesSecSet blockIOTuneParams
      then [MustNewConstMetric libvirtDomainBlockTotalBytesSecDesc GaugeValue
              (real (TotalBytesSec blockIOTuneParams)) [domainName, DomainStatsBlock.Name disk]]
      else []) @
     (if ReadBytesSecSet blockIOTuneParams
      then [MustNewConstMetric libvirtDomainBlockReadBytesSecDesc GaugeValue
              (real (ReadBytesSec blockIOTuneParams)) [domainName, DomainStatsBlock.Name disk]]
      else []) @
     (if WriteBytesSecSet blockIOTuneParams
      then [MustNewConstMetric libvirtDomainBlockWriteBytesSecDesc GaugeValue
              (real (WriteBytesSec blockIOTuneParams)) [domainName, DomainStatsBlock.Name disk]]
      else []) @
     (if TotalIopsSecSet blockIOTuneParams
      then [MustNewConstMetric libvirtDomainBlockTotalIopsSecDesc GaugeValue
              (real (TotalIopsSec blockIOTuneParams)) [domainName, DomainStatsBlock.Name disk]]
      else []) @
     (if ReadIopsSecSet blockIOTuneParams
      then [MustNewConstMetric libvirtDomainBlockReadIopsSecDesc GaugeValue
              (real (ReadIopsSec blockIOTuneParams)) [domainName, DomainStatsBlock.Name disk]]
      else []) @
     (if WriteIopsSecSet blockIOTuneParams
      then [MustNewConstMetric libvirtDomainBlockWriteIopsSecDesc GaugeValue
              (real (WriteIopsSec blockIOTuneParams)) [domainName, DomainStatsBlock.Name disk]]
      else []) @
     (if TotalBytesSecMaxSet blockIOTuneParams
      then [MustNewConstMetric libvirtDomainBlockTotalBytesSecMaxDesc GaugeValue
              (real (TotalBytesSecMax blockIOTuneParams)) [domainName, DomainStatsBlock.Name disk]]
      else []) @
     (if ReadBytesSecMaxSet blockIOTuneParams
      then [MustNewConstMetric libvirtDomainBlockReadBytesSecMaxDesc GaugeValue
              (real (ReadBytesSecMax blockIOTuneParams)) [domainName, DomainStatsBlock.Name disk]]
      else []) @
     (if WriteBytesSecMaxSet blockIOTuneParams
      then [MustNewConstMetric libvirtDomainBlockWriteBytesSecMaxDesc GaugeValue
              (real (WriteBytesSecMax blockIOTuneParams)) [domainName, DomainStatsBlock.Name disk]]
      else []) @
     (if TotalIopsSecMaxSet blockIOTuneParams
      then [MustNewConstMetric libvirtDomainBlockTotalIopsSecMaxDesc GaugeValue
              (real (TotalIopsSecMax blockIOTuneParams)) [domainName, DomainStatsBlock.Name disk]]
      else []) @
     (if ReadIopsSecMaxSet blockIOTuneParams
      then [MustNewConstMetric libvirtDomainBlockReadIopsSecMaxDesc GaugeValue
              (real (ReadIopsSecMax blockIOTuneParams)) [domainName, DomainStatsBlock.Name disk]]
      else []) @
     (if WriteIopsSecMaxSet blockIOTuneParams
      then [MustNewConstMetric libvirtDomainBlockWriteIopsSecMaxDesc GaugeValue
              (real (WriteIopsSecMax blockIOTuneParams)) [domainName, DomainStatsBlock.Name disk]]
      else []) @
     (if TotalBytesSecMaxLengthSet blockIOTuneParams
      then [MustNewConstMetric libvirtDomainBlockTotalBytesSecMaxLengthDesc GaugeValue
              (real (TotalBytesSecMaxLength blockIOTuneParams)) [domainName, DomainStatsBlock.Name disk]]
      else []) @
     (if ReadBytesSecMaxLengthSet blockIOTuneParams
      then [MustNewConstMetric libvirtDomainBlockReadBytesSecMaxLengthDesc GaugeValue
              (real (ReadBytesSecMaxLength blockIOTuneParams)) [domainName, DomainStatsBlock.Name disk]]
      else []) @
     (if WriteBytesSecMaxLengthSet blockIOTuneParams
      then [MustNewConstMetric libvirtDomainBlockWriteBytesSecMaxLengthDesc GaugeValue
              (real (WriteBytesSecMaxLength blockIOTuneParams)) [domainName, DomainStatsBlock.Name disk]]
      else []) @
     (if TotalIopsSecMaxLengthSet blockIOTuneParams
      then [MustNewConstMetric libvirtDomainBlockTotalIopsSecMaxLengthDesc GaugeValue
              (real (TotalIopsSecMaxLength blockIOTuneParams)) [domainName, DomainStatsBlock.Name disk]]
      else []) @
     (if ReadIopsSecMaxLengthSet blockIOTuneParams
      then [MustNewConstMetric libvirtDomainBlockReadIopsSecMaxLengthDesc GaugeValue
              (real (ReadIopsSecMaxLength blockIOTuneParams)) [domainName, DomainStatsBlock.Name disk]]
      else []) @
     (if WriteIopsSecMaxLengthSet blockIOTuneParams
      then [MustNewConstMetric libvirtDomainBlockWriteIopsSecMaxLengthDesc GaugeValue
              (real (WriteIopsSecMaxLength blockIOTuneParams)) [domainName, DomainStatsBlock.Name disk]]
      else []) @
     (if SizeIopsSecSet blockIOTuneParams
      then [MustNewConstMetric libvirtDomainBlockSizeIopsSecDesc GaugeValue
              (real (SizeIopsSec blockIOTuneParams)) [domainName, DomainStatsBlock.Name disk]]
      else [])"

text \<open>
  The handling of a failed \<^verbatim>\<open>GetBlockIoTune\<close>. The \<^verbatim>\<open>switch\<close> on the error code
  is under \<^verbatim>\<open>if !ok\<close>; an error for which the type assertion holds leaves the
  \<^verbatim>\<open>if\<close> at once and the loop goes on to the next device.
\<close>

definition blockIoTuneError :: "go_error \<Rightarrow> state \<Rightarrow> outcome option \<times> state" where
  "blockIoTuneError err s =
     (case assertLibvirtError err of (code, ok) \<Rightarrow>
        if \<not> ok then
          (if code = ERR_OPERATION_INVALID
           then (None, log_Printf (''Invalid operation GetBlockIoTune: '' @ Error err) s)
           else if code = ERR_OPERATION_UNSUPPORTED
           then (None, WriteErrorOnce (''Unsupported operation GetBlockIoTune: '' @ Error err)
                         ''blkiotune_unsupported'' s)
           else (Some (Err err), s))
        else (None, s))"

text \<open>
  One iteration of the loop over \<^verbatim>\<open>stat.Block\<close>. \<open>None\<close> is the end of the
  iteration (also by \<^verbatim>\<open>continue\<close>); evaluating \<^verbatim>\<open>Device.Serial\<close> with a
  \<^verbatim>\<open>nil\<close> \<^verbatim>\<open>Device\<close> panics before anything is sent for the device.
\<close>

definition collectBlock ::
  "string \<Rightarrow> Domain_desc \<Rightarrow> DomainStats \<Rightarrow> DomainStatsBlock \<Rightarrow> state \<Rightarrow> outcome option \<times> state" where
  "collectBlock domainName desc stat disk s =
     (if DomainStatsBlock.Name disk = ''hdc'' \<or> DomainStatsBlock.Name disk = ''hda''
      then (None, s)
      else
        (case findDisk disk (Devices_Disks desc) of
           (DiskSource, None) \<Rightarrow> (Some NilDeref, s)
         | (DiskSource, Some Device) \<Rightarrow>
             (let s1 = send [blockMeta domainName disk DiskSource Device] s;
                  s2 = send (blockStatMetrics domainName disk) s1
              in case GetBlockIoTune (Domain stat) (DomainStatsBlock.Name disk) of
                   Inl err \<Rightarrow> blockIoTuneError err s2
                 | Inr blockIOTuneParams \<Rightarrow>
                     (None, send (blockIoTuneMetrics domainName disk blockIOTuneParams) s2))))"

fun collectBlocks ::
  "string \<Rightarrow> Domain_desc \<Rightarrow> DomainStats \<Rightarrow> DomainStatsBlock list \<Rightarrow> state \<Rightarrow> outcome option \<times> state" where
  "collectBlocks domainName desc stat [] s = (None, s)"
| "collectBlocks domainName desc stat (disk # disks) s =
     (case collectBlock domainName desc stat disk s of
        (Some r, s') \<Rightarrow> (Some r, s')
      | (None, s') \<Rightarrow> collectBlocks domainName desc stat disks s')"

subsection \<open>Network interfaces\<close>

fun findInterface :: "DomainStatsNet \<Rightarrow> Interface list \<Rightarrow> string \<times> string" where
  "findInterface iface [] = ('''', '''')"
| "findInterface iface (net # nets) =
     (if Interface.Target_Device net = DomainStatsNet.Name iface
      then (Source_Bridge net, Virtualport_Parameters_InterfaceID net)
      else findInterface iface nets)"

text \<open>One iteration of the loop over \<^verbatim>\<open>stat.Net\<close>: it only sends.\<close>

definition collectInterface :: "string \<Rightarrow> Domain_desc \<Rightarrow> DomainStatsNet \<Rightarrow> Metric list" where
  "collectInterface domainName desc iface =
     (case findInterface iface (Devices_Interfaces desc) of (SourceBridge, VirtualInterface) \<Rightarrow>
     (if SourceBridge \<noteq> [] \<or> VirtualInterface \<noteq> []
      then [MustNewConstMetric libvirtDomainMetaInterfacesDesc GaugeValue 1
              [domainName, SourceBridge, DomainStatsNet.Name iface, VirtualInterface]]
      else []) @
     (if RxBytesSet iface
      then [MustNewConstMetric libvirtDomainInterfaceRxBytesDesc CounterValue
              (real (RxBytes iface)) [domainName, DomainStatsNet.Name iface]]
      else []) @
     (if RxPktsSet iface
      then [MustNewConstMetric libvirtDomainInterfaceRxPacketsDesc CounterValue
              (real (RxPkts iface)) [domainName, DomainStatsNet.Name iface]]
      else []) @
     (if RxErrsSet iface
      then [MustNewConstMetric libvirtDomainInterfaceRxErrsDesc CounterValue
              (real (RxErrs iface)) [domainName, DomainStatsNet.Name iface]]
      else []) @
     (if RxDropSet iface
      then [MustNewConstMetric libvirtDomainInterfaceRxDropDesc CounterValue
              (real (RxDrop iface)) [domainName, DomainStatsNet.Name iface]]
      else []) @
     (if TxBytesSet iface
      then [MustNewConstMetric libvirtDomainInterfaceTxBytesDesc CounterValue
              (real (TxBytes iface)) [domainName, DomainStatsNet.Name iface]]
      else []) @
     (if TxPktsSet iface
      then [MustNewConstMetric libvirtDomainInterfaceTxPacketsDesc CounterValue
              (real (TxPkts iface)) [domainName, DomainStatsNet.Name iface]]
      else []) @
     (if TxErrsSet iface
      then [MustNewConstMetric libvirtDomainInterfaceTxErrsDesc CounterValue
              (real (TxErrs iface)) [domainName, DomainStatsNet.Name iface]]
      else []) @
     (if TxDropSet iface
      then [MustNewConstMetric libvirtDomainInterfaceTxDropDesc CounterValue
              (real (TxDrop iface)) [domainName, DomainStatsNet.Name iface]]
      else []))"

subsection \<open>Memory statistics\<close>

text \<open>
  \<^verbatim>\<open>usedPercent\<close> is declared with the zero value and assigned only when the call
  succeeded and both quantities are not zero.
\<close>

definition usedPercent :: "go_error + DomainMemoryStat list \<Rightarrow> real" where
  "usedPercent r =
     (case r of
        Inl err \<Rightarrow> 0
      | Inr memorystat \<Rightarrow>
          (let stats = memoryStatCollect memorystat in
           if Usable stats \<noteq> 0 \<and> VirDomainMemoryStats.Available stats \<noteq> 0
           then (real (VirDomainMemoryStats.Available stats) - real (Usable stats)) /
                (real (VirDomainMemoryStats.Available stats) / 100)
           else 0))"

definition memoryMetrics :: "string \<Rightarrow> go_error + DomainMemoryStat list \<Rightarrow> Metric list" where
  "memoryMetrics domainName r =
     (let stats = (case r of Inl err \<Rightarrow> zeroMemoryStats
                            | Inr memorystat \<Rightarrow> memoryStatCollect memorystat)
      in [MustNewConstMetric libvirtDomainMemoryStatMajorFaultTotalDesc CounterValue
            (real (MajorFault stats)) [domainName],
          MustNewConstMetric libvirtDomainMemoryStatMinorFaultTotalDesc CounterValue
            (real (MinorFault stats)) [domainName],
          MustNewConstMetric libvirtDomainMemoryStatUnusedBytesDesc GaugeValue
            (real (Unused stats) * 1024) [domainName],
          MustNewConstMetric libvirtDomainMemoryStatAvailableBytesDesc GaugeValue
            (real (VirDomainMemoryStats.Available stats) * 1024) [domainName],
          MustNewConstMetric libvirtDomainMemoryStatActualBaloonBytesDesc GaugeValue
            (real (ActualBalloon stats) * 1024) [domainName],
          MustNewConstMetric libvirtDomainMemoryStatRssBytesDesc GaugeValue
            (real (Rss stats) * 1024) [domainName],
          MustNewConstMetric libvirtDomainMemoryStatUsableBytesDesc GaugeValue
            (real (Usable stats) * 1024) [domainName],
          MustNewConstMetric libvirtDomainMemoryStatDiskCachesBytesDesc GaugeValue
            (real (DiskCaches stats) * 1024) [domainName],
          MustNewConstMetric libvirtDomainMemoryStatUsedPercentDesc GaugeValue
            (usedPercent r) [domainName]])"

subsection \<open>The whole function\<close>

text \<open>
  \<open>collectStats\<close> is \<^verbatim>\<open>CollectDomain\<close> from the call of \<^verbatim>\<open>GetVcpus\<close> to its
  end: virtual CPUs, block devices, network interfaces, memory statistics.
\<close>

definition collectStats :: "string \<Rightarrow> Domain_desc \<Rightarrow> DomainStats \<Rightarrow> state \<Rightarrow> outcome \<times> state" where
  "collectStats domainName desc stat s =
     (case collectVcpus domainName stat s of
        (Some r, s1) \<Rightarrow> (r, s1)
      | (None, s1) \<Rightarrow>
     (case collectBlocks domainName desc stat (Block stat) s1 of
        (Some r, s2) \<Rightarrow> (r, s2)
      | (None, s2) \<Rightarrow>
          (Nil,
           send (memoryMetrics domainName (MemoryStats (Domain stat)))
             (send (concat (map (collectInterface domainName desc) (Net stat))) s2))))"

text \<open>
  \<^verbatim>\<open>xml.Unmarshal\<close> into a \<^verbatim>\<open>libvirtSchema.Domain\<close> is the parameter
  \<open>Unmarshal\<close>: the decoded descriptor of an XML text, or the decoding error.
\<close>

definition CollectDomain ::
  "(string \<Rightarrow> go_error + Domain_desc) \<Rightarrow> DomainStats \<Rightarrow> state \<Rightarrow> outcome \<times> state" where
  "CollectDomain Unmarshal stat s =
     (case Domain.GetName (Domain stat) of
        Inl err \<Rightarrow> (Err err, s)
      | Inr domainName \<Rightarrow>
     (case GetUUIDString (Domain stat) of
        Inl err \<Rightarrow> (Err err, s)
      | Inr domainUUID \<Rightarrow>
     (case GetXMLDesc (Domain stat) of
        Inl err \<Rightarrow> (Err err, s)
      | Inr xmlDesc \<Rightarrow>
     (case Unmarshal xmlDesc of
        Inl err \<Rightarrow> (Err err, s)
      | Inr desc \<Rightarrow>
     (case Domain.GetInfo (Domain stat) of
        Inl err \<Rightarrow> (Err err, s)
      | Inr info \<Rightarrow>
          collectStats domainName desc stat
            (send (infoMetrics domainName domainUUID desc info) s))))))"

section \<open>Definitions used to state and to test the properties\<close>

text \<open>
  None of these is part of the collector: they name what a call has sent, classify
  the descriptors, and give concrete domains to run the collector on.
\<close>

subsection \<open>The decoder of memory statistics\<close>

text \<open>
  The value assigned to a quantity by a sequence of pairs: the value of the last pair
  carrying the tag of the quantity, and zero when no pair carries it.
\<close>

definition valueOfTag :: "int \<Rightarrow> DomainMemoryStat list \<Rightarrow> nat" where
  "valueOfTag t memorystat =
     (case filter (\<lambda>p. Tag p = t) memorystat of [] \<Rightarrow> 0 | ps \<Rightarrow> Val (last ps))"

definition knownTag :: "int \<Rightarrow> bool" where
  "knownTag t = (t = 2 \<or> t = 3 \<or> t = 4 \<or> t = 5 \<or> t = 6 \<or> t = 7 \<or> t = 8 \<or> t = 10)"

subsection \<open>CollectStoragePool sends all three gauges or nothing\<close>

definition poolGauges :: "string \<Rightarrow> StoragePoolInfo \<Rightarrow> Metric list" where
  "poolGauges pool_name pool_info =
     [MustNewConstMetric libvirtPoolInfoCapacity GaugeValue
        (real (StoragePoolInfo.Capacity pool_info)) [pool_name],
      MustNewConstMetric libvirtPoolInfoAllocation GaugeValue
        (real (StoragePoolInfo.Allocation pool_info)) [pool_name],
      MustNewConstMetric libvirtPoolInfoAvailable GaugeValue
        (real (StoragePoolInfo.Available pool_info)) [pool_name]]"

definition emptyState :: state where
  "emptyState = \<lparr>ch = [], logs = [], errorsMap = {}\<rparr>"

definition examplePoolInfo :: StoragePoolInfo where
  "examplePoolInfo =
     \<lparr>StoragePoolInfo.Capacity = 100, StoragePoolInfo.Allocation = 40,
      StoragePoolInfo.Available = 60\<rparr>"

definition examplePool :: StoragePool where
  "examplePool =
     \<lparr>Refresh = None, StoragePool.GetName = Inr ''default'',
      StoragePool.GetInfo = Inr examplePoolInfo\<rparr>"

subsection \<open>What CollectDomain sends\<close>

text \<open>The metrics of the virtual CPU part, as a function of what the calls returned.\<close>

definition vcpuSent :: "string \<Rightarrow> DomainStats \<Rightarrow> Metric list" where
  "vcpuSent domainName stat =
     (case GetVcpus (Domain stat) of
        Inl err \<Rightarrow> []
      | Inr domainStatsVcpu \<Rightarrow>
          concat (map (vcpuInfoMetrics domainName) domainStatsVcpu) @
          concat (map (vcpuWaitDelayMetrics domainName) (enumerate 0 (Vcpu stat))))"

text \<open>The metrics of one block device: nothing unless a descriptor entry was found.\<close>

definition blockSent :: "string \<Rightarrow> Domain_desc \<Rightarrow> DomainStats \<Rightarrow> DomainStatsBlock \<Rightarrow> Metric list" where
  "blockSent domainName desc stat disk =
     (if DomainStatsBlock.Name disk = ''hdc'' \<or> DomainStatsBlock.Name disk = ''hda'' then []
      else
        (case findDisk disk (Devices_Disks desc) of
           (DiskSource, None) \<Rightarrow> []
         | (DiskSource, Some Device) \<Rightarrow>
             blockMeta domainName disk DiskSource Device # blockStatMetrics domainName disk @
             (case GetBlockIoTune (Domain stat) (DomainStatsBlock.Name disk) of
                Inl err \<Rightarrow> []
              | Inr blockIOTuneParams \<Rightarrow> blockIoTuneMetrics domainName disk blockIOTuneParams)))"

text \<open>The metrics sent after the block devices, when the function reaches its end.\<close>

definition tailSent :: "string \<Rightarrow> Domain_desc \<Rightarrow> DomainStats \<Rightarrow> Metric list" where
  "tailSent domainName desc stat =
     concat (map (collectInterface domainName desc) (Net stat)) @
     memoryMetrics domainName (MemoryStats (Domain stat))"

text \<open>
  The start of \<^verbatim>\<open>CollectDomain\<close>: the five fetches before the first send. Any
  failure is returned at once.
\<close>

definition fetch ::
  "(string \<Rightarrow> go_error + Domain_desc) \<Rightarrow> DomainStats \<Rightarrow>
   go_error + (string \<times> string \<times> Domain_desc \<times> DomainInfo)" where
  "fetch Unmarshal stat =
     (case Domain.GetName (Domain stat) of
        Inl err \<Rightarrow> Inl err
      | Inr domainName \<Rightarrow>
     (case GetUUIDString (Domain stat) of
        Inl err \<Rightarrow> Inl err
      | Inr domainUUID \<Rightarrow>
     (case GetXMLDesc (Domain stat) of
        Inl err \<Rightarrow> Inl err
      | Inr xmlDesc \<Rightarrow>
     (case Unmarshal xmlDesc of
        Inl err \<Rightarrow> Inl err
      | Inr desc \<Rightarrow>
     (case Domain.GetInfo (Domain stat) of
        Inl err \<Rightarrow> Inl err
      | Inr info \<Rightarrow> Inr (domainName, domainUUID, desc, info))))))"

subsection \<open>Presence flags\<close>

text \<open>
  The presence flag of each optional statistic, by the descriptor of its metric: the
  flag of the bulk block statistics, of the bulk interface statistics and of the
  block I/O tuning parameters. A descriptor of no such field has no flag.
\<close>

definition blockFlag :: "Desc \<Rightarrow> (DomainStatsBlock \<Rightarrow> bool) option" where
  "blockFlag d =
     (case d of
        libvirtDomainBlockRdBytesDesc \<Rightarrow> Some RdBytesSet
        | libvirtDomainBlockRdReqDesc \<Rightarrow> Some RdReqsSet
        | libvirtDomainBlockRdTotalTimeSecondsDesc \<Rightarrow> Some RdTimesSet
        | libvirtDomainBlockWrBytesDesc \<Rightarrow> Some WrBytesSet
        | libvirtDomainBlockWrReqDesc \<Rightarrow> Some WrReqsSet
        | libvirtDomainBlockWrTotalTimesDesc \<Rightarrow> Some WrTimesSet
        | libvirtDomainBlockFlushReqDesc \<Rightarrow> Some FlReqsSet
        | libvirtDomainBlockFlushTotalTimeSecondsDesc \<Rightarrow> Some FlTimesSet
        | libvirtDomainBlockAllocationDesc \<Rightarrow> Some AllocationSet
        | libvirtDomainBlockCapacityBytesDesc \<Rightarrow> Some CapacitySet
        | libvirtDomainBlockPhysicalSizeBytesDesc \<Rightarrow> Some PhysicalSet
      | _ \<Rightarrow> None)"

definition netFlag :: "Desc \<Rightarrow> (DomainStatsNet \<Rightarrow> bool) option" where
  "netFlag d =
     (case d of
        libvirtDomainInterfaceRxBytesDesc \<Rightarrow> Some RxBytesSet
        | libvirtDomainInterfaceRxPacketsDesc \<Rightarrow> Some RxPktsSet
        | libvirtDomainInterfaceRxErrsDesc \<Rightarrow> Some RxErrsSet
        | libvirtDomainInterfaceRxDropDesc \<Rightarrow> Some RxDropSet
        | libvirtDomainInterfaceTxBytesDesc \<Rightarrow> Some TxBytesSet
        | libvirtDomainInterfaceTxPacketsDesc \<Rightarrow> Some TxPktsSet
        | libvirtDomainInterfaceTxErrsDesc \<Rightarrow> Some TxErrsSet
        | libvirtDomainInterfaceTxDropDesc \<Rightarrow> Some TxDropSet
      | _ \<Rightarrow> None)"

definition tuneFlag :: "Desc \<Rightarrow> (DomainBlockIoTuneParameters \<Rightarrow> bool) option" where
  "tuneFlag d =
     (case d of
        libvirtDomainBlockTotalBytesSecDesc \<Rightarrow> Some TotalBytesSecSet
        | libvirtDomainBlockReadBytesSecDesc \<Rightarrow> Some ReadBytesSecSet
        | libvirtDomainBlockWriteBytesSecDesc \<Rightarrow> Some WriteBytesSecSet
        | libvirtDomainBlockTotalIopsSecDesc \<Rightarrow> Some TotalIopsSecSet
        | libvirtDomainBlockReadIopsSecDesc \<Rightarrow> Some ReadIopsSecSet
        | libvirtDomainBlockWriteIopsSecDesc \<Rightarrow> Some WriteIopsSecSet
        | libvirtDomainBlockTotalBytesSecMaxDesc \<Rightarrow> Some TotalBytesSecMaxSet
        | libvirtDomainBlockReadBytesSecMaxDesc \<Rightarrow> Some ReadBytesSecMaxSet
        | libvirtDomainBlockWriteBytesSecMaxDesc \<Rightarrow> Some WriteBytesSecMaxSet
        | libvirtDomainBlockTotalIopsSecMaxDesc \<Rightarrow> Some TotalIopsSecMaxSet
        | libvirtDomainBlockReadIopsSecMaxDesc \<Rightarrow> Some ReadIopsSecMaxSet
        | libvirtDomainBlockWriteIopsSecMaxDesc \<Rightarrow> Some WriteIopsSecMaxSet
        | libvirtDomainBlockTotalBytesSecMaxLengthDesc \<Rightarrow> Some TotalBytesSecMaxLengthSet
        | libvirtDomainBlockReadBytesSecMaxLengthDesc \<Rightarrow> Some ReadBytesSecMaxLengthSet
        | libvirtDomainBlockWriteBytesSecMaxLengthDesc \<Rightarrow> Some WriteBytesSecMaxLengthSet
        | libvirtDomainBlockTotalIopsSecMaxLengthDesc \<Rightarrow> Some TotalIopsSecMaxLengthSet
        | libvirtDomainBlockReadIopsSecMaxLengthDesc \<Rightarrow> Some ReadIopsSecMaxLengthSet
        | libvirtDomainBlockWriteIopsSecMaxLengthDesc \<Rightarrow> Some WriteIopsSecMaxLengthSet
        | libvirtDomainBlockSizeIopsSecDesc \<Rightarrow> Some SizeIopsSecSet
      | _ \<Rightarrow> None)"

subsection \<open>Descriptors by part of the function\<close>

text \<open>
  The descriptors of the metrics about virtual CPUs and about block devices
  (subsystems \<^verbatim>\<open>domain_vcpu\<close>, and \<^verbatim>\<open>domain_block\<close> with
  \<^verbatim>\<open>domain_block_stats\<close>, in \<^verbatim>\<open>libvirtmetrics.go\<close>).
\<close>

definition vcpuDescs :: "Desc list" where
  "vcpuDescs =
     [libvirtDomainVcpuStateDesc, libvirtDomainVcpuTimeDesc, libvirtDomainVcpuCPUDesc,
      libvirtDomainVcpuWaitDesc, libvirtDomainVcpuDelayDesc]"

definition blockDescs :: "Desc list" where
  "blockDescs =
     [libvirtDomainMetaBlockDesc, libvirtDomainBlockRdBytesDesc,
      libvirtDomainBlockRdReqDesc, libvirtDomainBlockRdTotalTimeSecondsDesc,
      libvirtDomainBlockWrBytesDesc, libvirtDomainBlockWrReqDesc,
      libvirtDomainBlockWrTotalTimesDesc, libvirtDomainBlockFlushReqDesc,
      libvirtDomainBlockFlushTotalTimeSecondsDesc, libvirtDomainBlockAllocationDesc,
      libvirtDomainBlockCapacityBytesDesc, libvirtDomainBlockPhysicalSizeBytesDesc,
      libvirtDomainBlockTotalBytesSecDesc, libvirtDomainBlockReadBytesSecDesc,
      libvirtDomainBlockWriteBytesSecDesc, libvirtDomainBlockTotalIopsSecDesc,
      libvirtDomainBlockReadIopsSecDesc, libvirtDomainBlockWriteIopsSecDesc,
      libvirtDomainBlockTotalBytesSecMaxDesc, libvirtDomainBlockReadBytesSecMaxDesc,
      libvirtDomainBlockWriteBytesSecMaxDesc, libvirtDomainBlockTotalIopsSecMaxDesc,
      libvirtDomainBlockReadIopsSecMaxDesc, libvirtDomainBlockWriteIopsSecMaxDesc,
      libvirtDomainBlockTotalBytesSecMaxLengthDesc,
      libvirtDomainBlockReadBytesSecMaxLengthDesc,
      libvirtDomainBlockWriteBytesSecMaxLengthDesc,
      libvirtDomainBlockTotalIopsSecMaxLengthDesc,
      libvirtDomainBlockReadIopsSecMaxLengthDesc,
      libvirtDomainBlockWriteIopsSecMaxLengthDesc, libvirtDomainBlockSizeIopsSecDesc]"

subsection \<open>Virtual CPUs: two sources, one index\<close>



subsection \<open>A domain to run the collector on\<close>

text \<open>The zero values of three structs of the binding.\<close>

definition zeroBlock :: DomainStatsBlock where
  "zeroBlock =
     \<lparr>DomainStatsBlock.Name = [], PathSet = False, Path = [], RdBytesSet = False,
      RdBytes = 0, RdReqsSet = False, RdReqs = 0, RdTimesSet = False, RdTimes = 0,
      WrBytesSet = False, WrBytes = 0, WrReqsSet = False, WrReqs = 0, WrTimesSet = False,
      WrTimes = 0, FlReqsSet = False, FlReqs = 0, FlTimesSet = False, FlTimes = 0,
      AllocationSet = False, DomainStatsBlock.Allocation = 0, CapacitySet = False,
      DomainStatsBlock.Capacity = 0, PhysicalSet = False, Physical = 0\<rparr>"

definition zeroNet :: DomainStatsNet where
  "zeroNet =
     \<lparr>DomainStatsNet.Name = [], RxBytesSet = False, RxBytes = 0, RxPktsSet = False,
      RxPkts = 0, RxErrsSet = False, RxErrs = 0, RxDropSet = False, RxDrop = 0,
      TxBytesSet = False, TxBytes = 0, TxPktsSet = False, TxPkts = 0, TxErrsSet = False,
      TxErrs = 0, TxDropSet = False, TxDrop = 0\<rparr>"

definition zeroTune :: DomainBlockIoTuneParameters where
  "zeroTune =
     \<lparr>TotalBytesSecSet = False, TotalBytesSec = 0, ReadBytesSecSet = False,
      ReadBytesSec = 0, WriteBytesSecSet = False, WriteBytesSec = 0,
      TotalIopsSecSet = False, TotalIopsSec = 0, ReadIopsSecSet = False, ReadIopsSec = 0,
      WriteIopsSecSet = False, WriteIopsSec = 0, TotalBytesSecMaxSet = False,
      TotalBytesSecMax = 0, ReadBytesSecMaxSet = False, ReadBytesSecMax = 0,
      WriteBytesSecMaxSet = False, WriteBytesSecMax = 0, TotalIopsSecMaxSet = False,
      TotalIopsSecMax = 0, ReadIopsSecMaxSet = False, ReadIopsSecMax = 0,
      WriteIopsSecMaxSet = False, WriteIopsSecMax = 0, TotalBytesSecMaxLengthSet = False,
      TotalBytesSecMaxLength = 0, ReadBytesSecMaxLengthSet = False,
      ReadBytesSecMaxLength = 0, WriteBytesSecMaxLengthSet = False,
      WriteBytesSecMaxLength = 0, TotalIopsSecMaxLengthSet = False,
      TotalIopsSecMaxLength = 0, ReadIopsSecMaxLengthSet = False,
      ReadIopsSecMaxLength = 0, WriteIopsSecMaxLengthSet = False,
      WriteIopsSecMaxLength = 0, SizeIopsSecSet = False, SizeIopsSec = 0\<rparr>"

text \<open>
  A running domain \<open>vm1\<close>: virtual CPUs 0 and 3 reported by \<^verbatim>\<open>GetVcpus\<close>, a bulk
  virtual CPU array of length one with only the wait flag set, a CD-ROM slot \<open>hda\<close>
  and a disk \<open>vda\<close> with only the read-bytes counter present, an interface
  \<open>tap0\<close> with only the received-bytes counter present, a throttle result with
  only the total-bytes limit present, and memory statistics with an unknown tag 9.
\<close>

definition exampleDesc :: Domain_desc where
  "exampleDesc =
     \<lparr>Devices_Disks =
        [\<lparr>Serial = ''s1'', DiskType = ''network'', Disk.Target_Device = ''vda'',
          Target_Bus = ''virtio'', Driver_Type = ''raw'', Driver_Cache = ''none'',
          Driver_Discard = ''unmap'', Source_Name = ''pool/vol1''\<rparr>,
         \<lparr>Serial = ''s2'', DiskType = ''file'', Disk.Target_Device = ''vdb'',
          Target_Bus = ''virtio'', Driver_Type = ''qcow2'', Driver_Cache = ''none'',
          Driver_Discard = [], Source_Name = []\<rparr>],
      Devices_Interfaces =
        [\<lparr>Interface.Target_Device = ''tap0'', Source_Bridge = ''br-int'',
          Virtualport_Parameters_InterfaceID = []\<rparr>],
      NovaName = ''web'', FlavorName = ''m1'', UserName = ''ann'', UserUUID = ''u1'',
      ProjectName = ''shop'', ProjectUUID = ''p1'', RootType = ''image'', RootUUID = ''r1''\<rparr>"

definition exampleDomain :: Domain where
  "exampleDomain =
     \<lparr>Domain.GetName = Inr ''vm1'',
      GetUUIDString = Inr ''id1'',
      GetXMLDesc = Inr ''<domain/>'',
      Domain.GetInfo =
        Inr \<lparr>DomainInfo.State = 1, MaxMem = 2048, Memory = 1024, NrVirtCpu = 4,
             DomainInfo.CpuTime = 5000000000\<rparr>,
      GetVcpus =
        Inr [\<lparr>Number = 0, DomainVcpuInfo.State = 1, DomainVcpuInfo.CpuTime = 1000000000,
              Cpu = 2\<rparr>,
             \<lparr>Number = 3, DomainVcpuInfo.State = 1, DomainVcpuInfo.CpuTime = 3000000000,
              Cpu = 5\<rparr>],
      GetBlockIoTune =
        (\<lambda>name. Inr (zeroTune\<lparr>TotalBytesSecSet := True, TotalBytesSec := 1000\<rparr>)),
      MemoryStats =
        Inr [\<lparr>Tag = 5, Val = 100\<rparr>, \<lparr>Tag = 8, Val = 25\<rparr>, \<lparr>Tag = 9, Val = 7\<rparr>]\<rparr>"

definition exampleStat :: DomainStats where
  "exampleStat =
     \<lparr>Domain = exampleDomain,
      Vcpu = [\<lparr>WaitSet = True, Wait = 2000000000, DelaySet = False, Delay = 0\<rparr>],
      Net = [zeroNet\<lparr>DomainStatsNet.Name := ''tap0'', RxBytesSet := True, RxBytes := 10\<rparr>],
      Block =
        [zeroBlock\<lparr>DomainStatsBlock.Name := ''hda'', RdBytesSet := True, RdBytes := 7\<rparr>,
         zeroBlock\<lparr>DomainStatsBlock.Name := ''vda'', RdBytesSet := True, RdBytes := 4096\<rparr>]\<rparr>"

definition exampleUnmarshal :: "string \<Rightarrow> go_error + Domain_desc" where
  "exampleUnmarshal xmlDesc = Inr exampleDesc"

definition exampleSent :: "Metric list" where
  "exampleSent =
     [MustNewConstMetric libvirtDomainInfoMetaDesc GaugeValue 1
        [''vm1'', ''id1'', ''web'', ''m1'', ''ann'', ''u1'', ''shop'', ''p1'', ''image'', ''r1''],
      MustNewConstMetric libvirtDomainInfoMaxMemBytesDesc GaugeValue 2097152 [''vm1''],
      MustNewConstMetric libvirtDomainInfoMemoryUsageBytesDesc GaugeValue 1048576 [''vm1''],
      MustNewConstMetric libvirtDomainInfoNrVirtCPUDesc GaugeValue 4 [''vm1''],
      MustNewConstMetric libvirtDomainInfoCPUTimeDesc CounterValue 5 [''vm1''],
      MustNewConstMetric libvirtDomainInfoVirDomainState GaugeValue 1 [''vm1''],
      MustNewConstMetric libvirtDomainVcpuStateDesc GaugeValue 1 [''vm1'', ''0''],
      MustNewConstMetric libvirtDomainVcpuTimeDesc CounterValue 1 [''vm1'', ''0''],
      MustNewConstMetric libvirtDomainVcpuCPUDesc GaugeValue 2 [''vm1'', ''0''],
      MustNewConstMetric libvirtDomainVcpuStateDesc GaugeValue 1 [''vm1'', ''3''],
      MustNewConstMetric libvirtDomainVcpuTimeDesc CounterValue 3 [''vm1'', ''3''],
      MustNewConstMetric libvirtDomainVcpuCPUDesc GaugeValue 5 [''vm1'', ''3''],
      MustNewConstMetric libvirtDomainVcpuWaitDesc CounterValue 2 [''vm1'', ''0''],
      MustNewConstMetric libvirtDomainMetaBlockDesc GaugeValue 1
        [''vm1'', ''vda'', ''pool/vol1'', ''s1'', ''virtio'', ''network'', ''raw'', ''none'',
         ''unmap''],
      MustNewConstMetric libvirtDomainBlockRdBytesDesc CounterValue 4096 [''vm1'', ''vda''],
      MustNewConstMetric libvirtDomainBlockTotalBytesSecDesc GaugeValue 1000 [''vm1'', ''vda''],
      MustNewConstMetric libvirtDomainMetaInterfacesDesc GaugeValue 1
        [''vm1'', ''br-int'', ''tap0'', []],
      MustNewConstMetric libvirtDomainInterfaceRxBytesDesc CounterValue 10 [''vm1'', ''tap0''],
      MustNewConstMetric libvirtDomainMemoryStatMajorFaultTotalDesc CounterValue 0 [''vm1''],
      MustNewConstMetric libvirtDomainMemoryStatMinorFaultTotalDesc CounterValue 0 [''vm1''],
      MustNewConstMetric libvirtDomainMemoryStatUnusedBytesDesc GaugeValue 0 [''vm1''],
      MustNewConstMetric libvirtDomainMemoryStatAvailableBytesDesc GaugeValue 102400 [''vm1''],
      MustNewConstMetric libvirtDomainMemoryStatActualBaloonBytesDesc GaugeValue 0 [''vm1''],
      MustNewConstMetric libvirtDomainMemoryStatRssBytesDesc GaugeValue 0 [''vm1''],
      MustNewConstMetric libvirtDomainMemoryStatUsableBytesDesc GaugeValue 25600 [''vm1''],
      MustNewConstMetric libvirtDomainMemoryStatDiskCachesBytesDesc GaugeValue 0 [''vm1''],
      MustNewConstMetric libvirtDomainMemoryStatUsedPercentDesc GaugeValue 75 [''vm1'']]"

subsection \<open>The example domain when GetVcpus is not valid\<close>

definition invalidStat :: DomainStats where
  "invalidStat =
     exampleStat\<lparr>Domain := (Domain exampleStat)
       \<lparr>GetVcpus := Inl (LibvirtError ERR_OPERATION_INVALID ''domain is not running'')\<rparr>,
       Vcpu := [\<lparr>WaitSet = True, Wait = 2000000000, DelaySet = True, Delay = 5\<rparr>]\<rparr>"

subsection \<open>A throttle fetch that is not supported\<close>

text \<open>
  The example domain with a second disk \<open>vdb\<close>, on a driver without block I/O tuning:
  every \<^verbatim>\<open>GetBlockIoTune\<close> fails with a \<^verbatim>\<open>libvirt.Error\<close> whose code is
  \<^verbatim>\<open>ERR_OPERATION_UNSUPPORTED\<close>.
\<close>

definition unsupportedStat :: DomainStats where
  "unsupportedStat =
     exampleStat\<lparr>Domain := (Domain exampleStat)
       \<lparr>GetBlockIoTune :=
          (\<lambda>name. Inl (LibvirtError ERR_OPERATION_UNSUPPORTED ''not supported by this driver''))\<rparr>,
       Block := [zeroBlock\<lparr>DomainStatsBlock.Name := ''vda''\<rparr>,
                 zeroBlock\<lparr>DomainStatsBlock.Name := ''vdb''\<rparr>]\<rparr>"

subsection \<open>A bulk-reported device without a descriptor entry\<close>

text \<open>
  The example domain reporting a device \<open>vdz\<close> that its descriptor does not list,
  before the disk \<open>vda\<close>.
\<close>

definition unmatchedStat :: DomainStats where
  "unmatchedStat =
     exampleStat\<lparr>Block := [zeroBlock\<lparr>DomainStatsBlock.Name := ''vdz''\<rparr>,
                            zeroBlock\<lparr>DomainStatsBlock.Name := ''vda'', RdBytesSet := True,
                              RdBytes := 4096\<rparr>]\<rparr>"

section \<open>Version decoding is exact below one thousand million\<close>

lemma version_nat_roundtrip:
  fixes n :: nat
  assumes "n \<le> 999999999"
  shows "(n div 1000000 mod 1000) * 1000000 + (n div 1000 mod 1000) * 1000 + n mod 1000 = n"
proof -
  define q where "q = n div 1000 div 1000"
  define r where "r = n div 1000 mod 1000"
  define t where "t = n mod 1000"
  have q: "n div 1000000 = q" unfolding q_def by (simp add: div_mult2_eq)
  have "q < 1000" using assms unfolding q [symmetric] by simp
  then have a: "n div 1000000 mod 1000 = q" unfolding q by simp
  have c: "n div 1000 = q * 1000 + r" unfolding q_def r_def by simp
  have d: "n = (n div 1000) * 1000 + t" unfolding t_def by simp
  have "n = (q * 1000 + r) * 1000 + t" using d unfolding c .
  then have "n = q * 1000000 + r * 1000 + t" by (simp add: algebra_simps)
  then show ?thesis unfolding a r_def [symmetric] t_def [symmetric] by simp
qed

lemma unat_version_parts:
  fixes w :: "32 word"
  shows "unat (w div 1000000) = unat w div 1000000"
    and "unat (w div 1000) = unat w div 1000"
    and "unat (w mod 1000) = unat w mod 1000"
  by (simp_all add: unat_div unat_mod)

text \<open>
  C4. The three version numbers are decoded as
  \<open>(v / 1000000 % 1000, v / 1000 % 1000, v % 1000)\<close>, and for a packed version of at
  most 999999999 the sum \<open>major * 1000000 + minor * 1000 + patch\<close> of the decoded
  components is the packed version again, as numbers and in 32-bit arithmetic.
\<close>

theorem versionParts_roundtrip:
  "versionParts v = (v div 1000000 mod 1000, v div 1000 mod 1000, v mod 1000) \<and>
   (unat v \<le> 999999999 \<longrightarrow>
      (case versionParts v of (major, minor, patch) \<Rightarrow>
         unat major * 1000000 + unat minor * 1000 + unat patch = unat v \<and>
         major * 1000000 + minor * 1000 + patch = v))"
proof -
  let ?a = "v div 1000000 mod 1000" and ?b = "v div 1000 mod 1000" and ?c = "v mod 1000"
  have "unat ?a * 1000000 + unat ?b * 1000 + unat ?c = unat v \<and> ?a * 1000000 + ?b * 1000 + ?c = v"
    if le: "unat v \<le> 999999999"
  proof -
    have n: "unat ?a * 1000000 + unat ?b * 1000 + unat ?c = unat v"
      using version_nat_roundtrip [OF le] by (simp only: unat_version_parts)
    have "(of_nat (unat ?a * 1000000 + unat ?b * 1000 + unat ?c) :: 32 word) = of_nat (unat v)"
      by (simp only: n)
    then have "?a * 1000000 + ?b * 1000 + ?c = v"
      by (simp only: of_nat_add of_nat_mult of_nat_numeral of_nat_unat ucast_id)
    with n show ?thesis by (rule conjI)
  qed
  then show ?thesis by (simp only: versionParts_def prod.case) blast
qed

theorem versionParts_roundtrip_witness:
  "unat (9001002 :: 32 word) \<le> 999999999 \<and> versionParts 9001002 = (9, 1, 2) \<and>
   (9 :: 32 word) * 1000000 + 1 * 1000 + 2 = 9001002"
  using versionParts_roundtrip [of 9001002] by (simp add: versionParts_def)

section \<open>The decoder of memory statistics\<close>

lemma valueOfTag_Nil: "valueOfTag t [] = 0"
  by (simp add: valueOfTag_def)

lemma valueOfTag_snoc:
  "valueOfTag t (ps @ [p]) = (if Tag p = t then Val p else valueOfTag t ps)"
  by (cases "filter (\<lambda>q. Tag q = t) ps") (simp_all add: valueOfTag_def)

lemma memoryStatCollect_Nil: "memoryStatCollect [] = zeroMemoryStats"
  by (simp add: memoryStatCollect_def)

lemma memoryStatCollect_snoc:
  "memoryStatCollect (ps @ [p]) = memoryStatCase (memoryStatCollect ps) p"
  by (simp add: memoryStatCollect_def)

lemma memoryStatCollect_fields:
  "MajorFault (memoryStatCollect ps) = valueOfTag 2 ps \<and>
   MinorFault (memoryStatCollect ps) = valueOfTag 3 ps \<and>
   Unused (memoryStatCollect ps) = valueOfTag 4 ps \<and>
   VirDomainMemoryStats.Available (memoryStatCollect ps) = valueOfTag 5 ps \<and>
   ActualBalloon (memoryStatCollect ps) = valueOfTag 6 ps \<and>
   Rss (memoryStatCollect ps) = valueOfTag 7 ps \<and>
   Usable (memoryStatCollect ps) = valueOfTag 8 ps \<and>
   DiskCaches (memoryStatCollect ps) = valueOfTag 10 ps"
proof (induction ps rule: rev_induct)
  case Nil
  show ?case by (simp add: memoryStatCollect_Nil valueOfTag_Nil zeroMemoryStats_def)
next
  case (snoc p ps)
  then show ?case
    by (simp add: memoryStatCollect_snoc valueOfTag_snoc memoryStatCase_def Let_def)
qed

lemma memoryStatCase_unknown: "\<not> knownTag (Tag p) \<Longrightarrow> memoryStatCase acc p = acc"
  by (simp add: memoryStatCase_def knownTag_def Let_def)

lemma memoryStatCollect_known:
  "memoryStatCollect (filter (\<lambda>p. knownTag (Tag p)) ps) = memoryStatCollect ps"
proof (induction ps rule: rev_induct)
  case Nil
  show ?case by simp
next
  case (snoc p ps)
  then show ?case
    by (cases "knownTag (Tag p)") (simp_all add: memoryStatCollect_snoc memoryStatCase_unknown)
qed

text \<open>
  C8. \<open>memoryStatCollect\<close> gives each of the eight quantities the value of the pair
  with its tag (2 major fault, 3 minor fault, 4 unused, 5 available, 6 actual balloon,
  7 resident set size, 8 usable, 10 disk caches; the last such pair when there are
  several), leaves a quantity with no such pair at zero, and ignores every pair with
  another tag: removing those pairs does not change the result.
\<close>

theorem memoryStatCollect_by_tag:
  "MajorFault (memoryStatCollect ps) = valueOfTag 2 ps \<and>
   MinorFault (memoryStatCollect ps) = valueOfTag 3 ps \<and>
   Unused (memoryStatCollect ps) = valueOfTag 4 ps \<and>
   VirDomainMemoryStats.Available (memoryStatCollect ps) = valueOfTag 5 ps \<and>
   ActualBalloon (memoryStatCollect ps) = valueOfTag 6 ps \<and>
   Rss (memoryStatCollect ps) = valueOfTag 7 ps \<and>
   Usable (memoryStatCollect ps) = valueOfTag 8 ps \<and>
   DiskCaches (memoryStatCollect ps) = valueOfTag 10 ps \<and>
   memoryStatCollect (filter (\<lambda>p. knownTag (Tag p)) ps) = memoryStatCollect ps"
  using memoryStatCollect_fields [of ps] memoryStatCollect_known [of ps] by simp

section \<open>CollectStoragePool sends all three gauges or nothing\<close>

text \<open>
  C10. \<open>CollectStoragePool\<close> returns an error exactly when the refresh, the name read
  or the info read fails; the error is that of the first call that failed, and then
  the state, so the channel, is unchanged. When it returns no error, all three calls
  succeeded and exactly the capacity, allocation and available gauges, each labelled
  with the pool name, were appended to the channel.
\<close>

theorem CollectStoragePool_atomic:
  assumes "CollectStoragePool pool s = (r, s')"
  shows "case r of
           Some err \<Rightarrow>
             s' = s \<and>
             (Refresh pool = Some err \<or>
              Refresh pool = None \<and> StoragePool.GetName pool = Inl err \<or>
              Refresh pool = None \<and> (\<exists>n. StoragePool.GetName pool = Inr n) \<and>
                StoragePool.GetInfo pool = Inl err)
         | None \<Rightarrow>
             (\<exists>pool_name pool_info.
                Refresh pool = None \<and> StoragePool.GetName pool = Inr pool_name \<and>
                StoragePool.GetInfo pool = Inr pool_info \<and>
                s' = s\<lparr>ch := ch s @ poolGauges pool_name pool_info\<rparr>)"
  using assms
  by (auto simp: CollectStoragePool_def send_def poolGauges_def split: option.splits sum.splits)

theorem CollectStoragePool_atomic_witness:
  "CollectStoragePool examplePool emptyState =
     (None, emptyState\<lparr>ch := poolGauges ''default'' examplePoolInfo\<rparr>) \<and>
   CollectStoragePool (examplePool\<lparr>StoragePool.GetInfo := Inl (OtherError ''gone'')\<rparr>) emptyState =
     (Some (OtherError ''gone''), emptyState)"
proof -
  have a: "CollectStoragePool examplePool emptyState =
     (None, emptyState\<lparr>ch := poolGauges ''default'' examplePoolInfo\<rparr>)"
    by (simp add: CollectStoragePool_def examplePool_def emptyState_def send_def poolGauges_def)
  have b: "CollectStoragePool (examplePool\<lparr>StoragePool.GetInfo := Inl (OtherError ''gone'')\<rparr>) emptyState =
     (Some (OtherError ''gone''), emptyState)"
    by (simp add: CollectStoragePool_def examplePool_def)
  from CollectStoragePool_atomic [OF a] CollectStoragePool_atomic [OF b] a b
  show ?thesis by simp
qed

section \<open>What CollectDomain sends\<close>

lemma in_set_guarded: "(m \<in> set (if b then [x] else [])) = (b \<and> m = x)"
  by (cases b) auto

lemma ch_send: "ch (send ms s) = ch s @ ms"
  by (simp add: send_def)

lemma emitted_append: "ch s' = ch s @ new \<Longrightarrow> emitted s s' = new"
  by (simp add: emitted_def)

lemma collectVcpus_ch:
  "collectVcpus domainName stat s = (r, s') \<Longrightarrow> ch s' = ch s @ vcpuSent domainName stat"
  by (auto simp: collectVcpus_def vcpuSent_def ch_send split: sum.splits prod.splits if_splits)

lemma blockIoTuneError_ch: "blockIoTuneError err s = (r, s') \<Longrightarrow> ch s' = ch s"
  by (auto simp: blockIoTuneError_def log_Printf_def WriteErrorOnce_def
           split: prod.splits if_splits)

lemma collectBlock_ch:
  assumes "collectBlock domainName desc stat disk s = (r, s')"
  shows "ch s' = ch s @ blockSent domainName desc stat disk"
proof (cases "DomainStatsBlock.Name disk = ''hdc'' \<or> DomainStatsBlock.Name disk = ''hda''")
  case True
  with assms show ?thesis by (simp add: collectBlock_def blockSent_def)
next
  case False
  obtain DiskSource dev where f: "findDisk disk (Devices_Disks desc) = (DiskSource, dev)"
    by (cases "findDisk disk (Devices_Disks desc)")
  show ?thesis
  proof (cases dev)
    case None
    with assms False f show ?thesis by (simp add: collectBlock_def blockSent_def)
  next
    case (Some Device)
    show ?thesis
    proof (cases "GetBlockIoTune (Domain stat) (DomainStatsBlock.Name disk)")
      case (Inl err)
      with assms False f Some
      have "blockIoTuneError err
              (send (blockStatMetrics domainName disk)
                 (send [blockMeta domainName disk DiskSource Device] s)) = (r, s')"
        by (simp add: collectBlock_def Let_def)
      from blockIoTuneError_ch [OF this] False f Some Inl show ?thesis
        by (simp add: blockSent_def ch_send)
    next
      case (Inr p)
      with assms False f Some show ?thesis
        by (auto simp: collectBlock_def blockSent_def Let_def ch_send)
    qed
  qed
qed

lemma collectBlocks_ch:
  "collectBlocks domainName desc stat disks s = (r, s') \<Longrightarrow>
   \<exists>new. ch s' = ch s @ new \<and>
         set new \<subseteq> (\<Union>disk \<in> set disks. set (blockSent domainName desc stat disk))"
proof (induction disks arbitrary: s)
  case Nil
  then show ?case by simp
next
  case (Cons disk disks)
  obtain r1 s1 where b: "collectBlock domainName desc stat disk s = (r1, s1)"
    by (cases "collectBlock domainName desc stat disk s")
  note c = collectBlock_ch [OF b]
  show ?case
  proof (cases r1)
    case None
    with Cons.prems b have "collectBlocks domainName desc stat disks s1 = (r, s')" by simp
    from Cons.IH [OF this] obtain new where
      n: "ch s' = ch s1 @ new"
         "set new \<subseteq> (\<Union>disk \<in> set disks. set (blockSent domainName desc stat disk))"
      by blast
    have "ch s' = ch s @ (blockSent domainName desc stat disk @ new)"
      using c n(1) by simp
    moreover have "set (blockSent domainName desc stat disk @ new)
        \<subseteq> (\<Union>d \<in> set (disk # disks). set (blockSent domainName desc stat d))"
      using n(2) by auto
    ultimately show ?thesis by blast
  next
    case (Some a)
    with Cons.prems b have "s' = s1" by simp
    with c have "ch s' = ch s @ blockSent domainName desc stat disk" by simp
    moreover have "set (blockSent domainName desc stat disk)
        \<subseteq> (\<Union>d \<in> set (disk # disks). set (blockSent domainName desc stat d))"
      by auto
    ultimately show ?thesis by blast
  qed
qed

lemma blockIoTuneError_not_Nil: "blockIoTuneError err s = (Some a, s') \<Longrightarrow> a \<noteq> Nil"
  by (auto simp: blockIoTuneError_def split: prod.splits if_splits)

lemma collectBlock_not_Nil:
  "collectBlock domainName desc stat disk s = (Some a, s') \<Longrightarrow> a \<noteq> Nil"
  by (auto simp: collectBlock_def Let_def dest: blockIoTuneError_not_Nil
           split: if_splits prod.splits option.splits sum.splits)

lemma collectBlocks_not_Nil:
  "collectBlocks domainName desc stat disks s = (Some a, s') \<Longrightarrow> a \<noteq> Nil"
proof (induction disks arbitrary: s)
  case Nil
  then show ?case by simp
next
  case (Cons disk disks)
  obtain r1 s1 where b: "collectBlock domainName desc stat disk s = (r1, s1)"
    by (cases "collectBlock domainName desc stat disk s")
  show ?case
  proof (cases r1)
    case None
    with Cons.prems b have "collectBlocks domainName desc stat disks s1 = (Some a, s')" by simp
    then show ?thesis by (rule Cons.IH)
  next
    case (Some a')
    with Cons.prems b have "a' = a" by simp
    with b Some show ?thesis using collectBlock_not_Nil by blast
  qed
qed

lemma collectStats_ch:
  assumes "collectStats domainName desc stat s = (r, s')"
  shows "\<exists>blocks rest.
           ch s' = ch s @ vcpuSent domainName stat @ blocks @ rest \<and>
           set blocks \<subseteq> (\<Union>disk \<in> set (Block stat). set (blockSent domainName desc stat disk)) \<and>
           (rest = [] \<or> r = Nil \<and> rest = tailSent domainName desc stat) \<and>
           (r = Nil \<longrightarrow> rest = tailSent domainName desc stat)"
proof -
  obtain r1 s1 where v: "collectVcpus domainName stat s = (r1, s1)"
    by (cases "collectVcpus domainName stat s")
  note cv = collectVcpus_ch [OF v]
  show ?thesis
  proof (cases r1)
    case (Some a)
    with assms v have e: "r = a" "s' = s1" by (simp_all add: collectStats_def)
    have "a \<noteq> Nil" using v Some
      by (auto simp: collectVcpus_def split: sum.splits prod.splits if_splits)
    with cv e show ?thesis by simp
  next
    case None
    obtain r2 s2 where b: "collectBlocks domainName desc stat (Block stat) s1 = (r2, s2)"
      by (cases "collectBlocks domainName desc stat (Block stat) s1")
    from collectBlocks_ch [OF b] obtain blocks where
      n: "ch s2 = ch s1 @ blocks"
         "set blocks \<subseteq> (\<Union>disk \<in> set (Block stat). set (blockSent domainName desc stat disk))"
      by blast
    show ?thesis
    proof (cases r2)
      case None2: None
      with assms v None b have e: "r = Nil"
        "s' = send (memoryMetrics domainName (MemoryStats (Domain stat)))
                (send (concat (map (collectInterface domainName desc) (Net stat))) s2)"
        by (simp_all add: collectStats_def)
      have "ch s' = ch s @ vcpuSent domainName stat @ blocks @ tailSent domainName desc stat"
        using e(2) n(1) cv by (simp add: ch_send tailSent_def)
      with n(2) e(1) show ?thesis by blast
    next
      case (Some a)
      with assms v None b have e: "r = a" "s' = s2" by (simp_all add: collectStats_def)
      have "a \<noteq> Nil" using b Some collectBlocks_not_Nil by blast
      have "ch s' = ch s @ vcpuSent domainName stat @ blocks @ []"
        using e(2) n(1) cv by simp
      with n(2) e(1) \<open>a \<noteq> Nil\<close> show ?thesis by blast
    qed
  qed
qed

lemma CollectDomain_fetch:
  "CollectDomain Unmarshal stat s =
     (case fetch Unmarshal stat of
        Inl err \<Rightarrow> (Err err, s)
      | Inr (domainName, domainUUID, desc, info) \<Rightarrow>
          collectStats domainName desc stat
            (send (infoMetrics domainName domainUUID desc info) s))"
  by (simp add: CollectDomain_def fetch_def split: sum.splits)

lemma fetch_GetName:
  "fetch Unmarshal stat = Inr (domainName, domainUUID, desc, info) \<Longrightarrow>
   Domain.GetName (Domain stat) = Inr domainName"
  by (simp add: fetch_def split: sum.splits)

lemma CollectDomain_ch:
  assumes "CollectDomain Unmarshal stat s = (r, s')"
  shows "(\<exists>err. fetch Unmarshal stat = Inl err \<and> r = Err err \<and> s' = s) \<or>
         (\<exists>domainName domainUUID desc info blocks rest.
            fetch Unmarshal stat = Inr (domainName, domainUUID, desc, info) \<and>
            ch s' = ch s @ infoMetrics domainName domainUUID desc info @
                      vcpuSent domainName stat @ blocks @ rest \<and>
            set blocks \<subseteq> (\<Union>disk \<in> set (Block stat). set (blockSent domainName desc stat disk)) \<and>
            (rest = [] \<or> r = Nil \<and> rest = tailSent domainName desc stat) \<and>
            (r = Nil \<longrightarrow> rest = tailSent domainName desc stat))"
proof (cases "fetch Unmarshal stat")
  case (Inl err)
  with assms show ?thesis by (simp add: CollectDomain_fetch)
next
  case (Inr t)
  obtain domainName domainUUID desc info where t: "t = (domainName, domainUUID, desc, info)"
    by (cases t)
  from assms Inr t
  have "collectStats domainName desc stat
          (send (infoMetrics domainName domainUUID desc info) s) = (r, s')"
    by (simp add: CollectDomain_fetch)
  from collectStats_ch [OF this] Inr t show ?thesis
    by (simp add: ch_send)
qed

lemma CollectDomain_emitted:
  assumes "CollectDomain Unmarshal stat s = (r, s')" and "m \<in> set (emitted s s')"
  shows "\<exists>domainName domainUUID desc info.
           fetch Unmarshal stat = Inr (domainName, domainUUID, desc, info) \<and>
           (m \<in> set (infoMetrics domainName domainUUID desc info) \<or>
            m \<in> set (vcpuSent domainName stat) \<or>
            (\<exists>disk \<in> set (Block stat). m \<in> set (blockSent domainName desc stat disk)) \<or>
            m \<in> set (tailSent domainName desc stat))"
proof -
  from CollectDomain_ch [OF assms(1)]
  consider "s' = s"
    | domainName domainUUID desc info blocks rest where
      "fetch Unmarshal stat = Inr (domainName, domainUUID, desc, info)"
      "ch s' = ch s @ infoMetrics domainName domainUUID desc info @
         vcpuSent domainName stat @ blocks @ rest"
      "set blocks \<subseteq> (\<Union>disk \<in> set (Block stat). set (blockSent domainName desc stat disk))"
      "rest = [] \<or> r = Nil \<and> rest = tailSent domainName desc stat"
    by blast
  then show ?thesis
  proof cases
    case 1
    with assms(2) show ?thesis by (simp add: emitted_def)
  next
    case 2
    note f = 2(1) and c = 2(2) and b = 2(3) and r = 2(4)
    from emitted_append [OF c] assms(2)
    have "m \<in> set (infoMetrics domainName domainUUID desc info) \<or>
          m \<in> set (vcpuSent domainName stat) \<or> m \<in> set blocks \<or> m \<in> set rest"
      by auto
    moreover have "\<exists>disk \<in> set (Block stat). m \<in> set (blockSent domainName desc stat disk)"
      if "m \<in> set blocks"
      using that b by auto
    moreover have "m \<in> set (tailSent domainName desc stat)" if "m \<in> set rest"
      using that r by auto
    ultimately
    have "m \<in> set (infoMetrics domainName domainUUID desc info) \<or>
          m \<in> set (vcpuSent domainName stat) \<or>
          (\<exists>disk \<in> set (Block stat). m \<in> set (blockSent domainName desc stat disk)) \<or>
          m \<in> set (tailSent domainName desc stat)"
      by blast
    with f show ?thesis by blast
  qed
qed

section \<open>Presence flags\<close>

lemma infoMetrics_flags:
  "m \<in> set (infoMetrics domainName domainUUID desc info) \<Longrightarrow>
   blockFlag (metricDesc m) = None \<and> netFlag (metricDesc m) = None \<and>
   tuneFlag (metricDesc m) = None"
  by (auto simp: infoMetrics_def MustNewConstMetric_def blockFlag_def netFlag_def tuneFlag_def)

lemma vcpuSent_flags:
  "m \<in> set (vcpuSent domainName stat) \<Longrightarrow>
   blockFlag (metricDesc m) = None \<and> netFlag (metricDesc m) = None \<and>
   tuneFlag (metricDesc m) = None"
  by (auto simp: vcpuSent_def vcpuInfoMetrics_def vcpuWaitDelayMetrics_def in_set_guarded
                 MustNewConstMetric_def blockFlag_def netFlag_def tuneFlag_def
           split: sum.splits)

lemma blockStatMetrics_flags:
  "m \<in> set (blockStatMetrics domainName disk) \<Longrightarrow>
   netFlag (metricDesc m) = None \<and> tuneFlag (metricDesc m) = None \<and>
   labelValues m = [domainName, DomainStatsBlock.Name disk] \<and>
   (\<exists>flag. blockFlag (metricDesc m) = Some flag \<and> flag disk)"
  by (auto simp: blockStatMetrics_def in_set_guarded MustNewConstMetric_def
                 blockFlag_def netFlag_def tuneFlag_def)

lemma blockIoTuneMetrics_flags:
  "m \<in> set (blockIoTuneMetrics domainName disk p) \<Longrightarrow>
   netFlag (metricDesc m) = None \<and> blockFlag (metricDesc m) = None \<and>
   labelValues m = [domainName, DomainStatsBlock.Name disk] \<and>
   (\<exists>flag. tuneFlag (metricDesc m) = Some flag \<and> flag p)"
  by (auto simp: blockIoTuneMetrics_def in_set_guarded MustNewConstMetric_def
                 blockFlag_def netFlag_def tuneFlag_def)

lemma blockMeta_flags:
  "blockFlag (metricDesc (blockMeta domainName disk DiskSource Device)) = None \<and>
   netFlag (metricDesc (blockMeta domainName disk DiskSource Device)) = None \<and>
   tuneFlag (metricDesc (blockMeta domainName disk DiskSource Device)) = None"
  by (simp add: blockMeta_def MustNewConstMetric_def blockFlag_def netFlag_def tuneFlag_def)

lemma blockSent_cases:
  assumes "m \<in> set (blockSent domainName desc stat disk)"
  shows "DomainStatsBlock.Name disk \<noteq> ''hdc'' \<and> DomainStatsBlock.Name disk \<noteq> ''hda'' \<and>
         ((\<exists>DiskSource Device. m = blockMeta domainName disk DiskSource Device) \<or>
          m \<in> set (blockStatMetrics domainName disk) \<or>
          (\<exists>p. GetBlockIoTune (Domain stat) (DomainStatsBlock.Name disk) = Inr p \<and>
               m \<in> set (blockIoTuneMetrics domainName disk p)))"
  using assms
  by (auto simp: blockSent_def split: if_splits prod.splits option.splits sum.splits)

lemma blockSent_flags:
  assumes "m \<in> set (blockSent domainName desc stat disk)"
  shows "netFlag (metricDesc m) = None \<and>
         (\<forall>flag. blockFlag (metricDesc m) = Some flag \<longrightarrow>
            labelValues m = [domainName, DomainStatsBlock.Name disk] \<and> flag disk) \<and>
         (\<forall>flag. tuneFlag (metricDesc m) = Some flag \<longrightarrow>
            (\<exists>p. GetBlockIoTune (Domain stat) (DomainStatsBlock.Name disk) = Inr p \<and>
                 labelValues m = [domainName, DomainStatsBlock.Name disk] \<and> flag p))"
proof -
  from blockSent_cases [OF assms]
  consider DiskSource Device where "m = blockMeta domainName disk DiskSource Device"
    | "m \<in> set (blockStatMetrics domainName disk)"
    | p where "GetBlockIoTune (Domain stat) (DomainStatsBlock.Name disk) = Inr p"
        "m \<in> set (blockIoTuneMetrics domainName disk p)"
    by blast
  then show ?thesis
  proof cases
    case 1
    then show ?thesis using blockMeta_flags [of domainName disk DiskSource Device] by simp
  next
    case 2
    from blockStatMetrics_flags [OF this] show ?thesis by auto
  next
    case 3
    from blockIoTuneMetrics_flags [OF 3(2)] 3(1) show ?thesis by auto
  qed
qed

lemma collectInterface_flags:
  "m \<in> set (collectInterface domainName desc iface) \<Longrightarrow>
   blockFlag (metricDesc m) = None \<and> tuneFlag (metricDesc m) = None \<and>
   (\<forall>flag. netFlag (metricDesc m) = Some flag \<longrightarrow>
      labelValues m = [domainName, DomainStatsNet.Name iface] \<and> flag iface)"
  by (auto simp: collectInterface_def in_set_guarded MustNewConstMetric_def
                 blockFlag_def netFlag_def tuneFlag_def
           split: prod.splits)

lemma memoryMetrics_flags:
  "m \<in> set (memoryMetrics domainName r) \<Longrightarrow>
   blockFlag (metricDesc m) = None \<and> netFlag (metricDesc m) = None \<and>
   tuneFlag (metricDesc m) = None"
  by (auto simp: memoryMetrics_def Let_def MustNewConstMetric_def
                 blockFlag_def netFlag_def tuneFlag_def)

lemma tailSent_flags:
  assumes "m \<in> set (tailSent domainName desc stat)"
  shows "blockFlag (metricDesc m) = None \<and> tuneFlag (metricDesc m) = None \<and>
         (\<forall>flag. netFlag (metricDesc m) = Some flag \<longrightarrow>
            (\<exists>iface \<in> set (Net stat).
               labelValues m = [domainName, DomainStatsNet.Name iface] \<and> flag iface))"
proof -
  from assms consider iface where "iface \<in> set (Net stat)"
      "m \<in> set (collectInterface domainName desc iface)"
    | "m \<in> set (memoryMetrics domainName (MemoryStats (Domain stat)))"
    by (auto simp: tailSent_def)
  then show ?thesis
  proof cases
    case 1
    from collectInterface_flags [OF 1(2)] 1(1) show ?thesis by blast
  next
    case 2
    from memoryMetrics_flags [OF this] show ?thesis by simp
  qed
qed

lemma block_field_origin:
  assumes "CollectDomain Unmarshal stat s = (r, s')" and "m \<in> set (emitted s s')"
    and fl: "blockFlag (metricDesc m) = Some flag"
  shows "\<exists>domainName. \<exists>disk \<in> set (Block stat).
           Domain.GetName (Domain stat) = Inr domainName \<and>
           labelValues m = [domainName, DomainStatsBlock.Name disk] \<and> flag disk"
proof -
  from CollectDomain_emitted [OF assms(1,2)] obtain domainName domainUUID desc info where
    f: "fetch Unmarshal stat = Inr (domainName, domainUUID, desc, info)" and
    c: "m \<in> set (infoMetrics domainName domainUUID desc info) \<or>
        m \<in> set (vcpuSent domainName stat) \<or>
        (\<exists>disk \<in> set (Block stat). m \<in> set (blockSent domainName desc stat disk)) \<or>
        m \<in> set (tailSent domainName desc stat)"
    by blast
  note n = fetch_GetName [OF f]
  from c show ?thesis
  proof (elim disjE bexE)
    assume "m \<in> set (infoMetrics domainName domainUUID desc info)"
    from infoMetrics_flags [OF this] fl show ?thesis by simp
  next
    assume "m \<in> set (vcpuSent domainName stat)"
    from vcpuSent_flags [OF this] fl show ?thesis by simp
  next
    fix disk
    assume d: "disk \<in> set (Block stat)"
      and "m \<in> set (blockSent domainName desc stat disk)"
    note b = blockSent_flags [OF this(2)]
    from b fl have "labelValues m = [domainName, DomainStatsBlock.Name disk] \<and> flag disk"
      by blast
    with d n show ?thesis by blast
  next
    assume "m \<in> set (tailSent domainName desc stat)"
    note t = tailSent_flags [OF this]
    from t fl show ?thesis by simp
  qed
qed

lemma net_field_origin:
  assumes "CollectDomain Unmarshal stat s = (r, s')" and "m \<in> set (emitted s s')"
    and fl: "netFlag (metricDesc m) = Some flag"
  shows "\<exists>domainName. \<exists>iface \<in> set (Net stat).
           Domain.GetName (Domain stat) = Inr domainName \<and>
           labelValues m = [domainName, DomainStatsNet.Name iface] \<and> flag iface"
proof -
  from CollectDomain_emitted [OF assms(1,2)] obtain domainName domainUUID desc info where
    f: "fetch Unmarshal stat = Inr (domainName, domainUUID, desc, info)" and
    c: "m \<in> set (infoMetrics domainName domainUUID desc info) \<or>
        m \<in> set (vcpuSent domainName stat) \<or>
        (\<exists>disk \<in> set (Block stat). m \<in> set (blockSent domainName desc stat disk)) \<or>
        m \<in> set (tailSent domainName desc stat)"
    by blast
  note n = fetch_GetName [OF f]
  from c show ?thesis
  proof (elim disjE bexE)
    assume "m \<in> set (infoMetrics domainName domainUUID desc info)"
    from infoMetrics_flags [OF this] fl show ?thesis by simp
  next
    assume "m \<in> set (vcpuSent domainName stat)"
    from vcpuSent_flags [OF this] fl show ?thesis by simp
  next
    fix disk
    assume d: "disk \<in> set (Block stat)"
      and "m \<in> set (blockSent domainName desc stat disk)"
    note b = blockSent_flags [OF this(2)]
    from b fl show ?thesis by simp
  next
    assume "m \<in> set (tailSent domainName desc stat)"
    note t = tailSent_flags [OF this]
    from t fl obtain iface where "iface \<in> set (Net stat)"
      "labelValues m = [domainName, DomainStatsNet.Name iface] \<and> flag iface"
      by blast
    with n show ?thesis by blast
  qed
qed

lemma tune_field_origin:
  assumes "CollectDomain Unmarshal stat s = (r, s')" and "m \<in> set (emitted s s')"
    and fl: "tuneFlag (metricDesc m) = Some flag"
  shows "\<exists>domainName p. \<exists>disk \<in> set (Block stat).
           Domain.GetName (Domain stat) = Inr domainName \<and>
           GetBlockIoTune (Domain stat) (DomainStatsBlock.Name disk) = Inr p \<and>
           labelValues m = [domainName, DomainStatsBlock.Name disk] \<and> flag p"
proof -
  from CollectDomain_emitted [OF assms(1,2)] obtain domainName domainUUID desc info where
    f: "fetch Unmarshal stat = Inr (domainName, domainUUID, desc, info)" and
    c: "m \<in> set (infoMetrics domainName domainUUID desc info) \<or>
        m \<in> set (vcpuSent domainName stat) \<or>
        (\<exists>disk \<in> set (Block stat). m \<in> set (blockSent domainName desc stat disk)) \<or>
        m \<in> set (tailSent domainName desc stat)"
    by blast
  note n = fetch_GetName [OF f]
  from c show ?thesis
  proof (elim disjE bexE)
    assume "m \<in> set (infoMetrics domainName domainUUID desc info)"
    from infoMetrics_flags [OF this] fl show ?thesis by simp
  next
    assume "m \<in> set (vcpuSent domainName stat)"
    from vcpuSent_flags [OF this] fl show ?thesis by simp
  next
    fix disk
    assume d: "disk \<in> set (Block stat)"
      and "m \<in> set (blockSent domainName desc stat disk)"
    note b = blockSent_flags [OF this(2)]
    from b fl obtain p where
      "GetBlockIoTune (Domain stat) (DomainStatsBlock.Name disk) = Inr p"
      "labelValues m = [domainName, DomainStatsBlock.Name disk] \<and> flag p"
      by blast
    with d n show ?thesis by blast
  next
    assume "m \<in> set (tailSent domainName desc stat)"
    note t = tailSent_flags [OF this]
    from t fl show ?thesis by simp
  qed
qed

text \<open>
  C1. Whatever \<^verbatim>\<open>CollectDomain\<close> sends under the metric of an optional field comes
  from an entry whose presence flag for that field is set and carries the labels of
  that entry: a block counter or size from a bulk block entry with the flag set, an
  interface counter from a bulk interface entry with the flag set, a throttle gauge
  from a successful \<^verbatim>\<open>GetBlockIoTune\<close> result with the flag set. So an entry whose
  flag is false contributes no measurement of that metric; no zero is sent in its
  place. The tuning parameters have nineteen guarded fields, all covered.
\<close>

theorem absent_field_not_emitted:
  assumes "CollectDomain Unmarshal stat s = (r, s')" and "m \<in> set (emitted s s')"
  shows "(\<forall>flag. blockFlag (metricDesc m) = Some flag \<longrightarrow>
            (\<exists>domainName. \<exists>disk \<in> set (Block stat).
               Domain.GetName (Domain stat) = Inr domainName \<and>
               labelValues m = [domainName, DomainStatsBlock.Name disk] \<and> flag disk)) \<and>
         (\<forall>flag. netFlag (metricDesc m) = Some flag \<longrightarrow>
            (\<exists>domainName. \<exists>iface \<in> set (Net stat).
               Domain.GetName (Domain stat) = Inr domainName \<and>
               labelValues m = [domainName, DomainStatsNet.Name iface] \<and> flag iface)) \<and>
         (\<forall>flag. tuneFlag (metricDesc m) = Some flag \<longrightarrow>
            (\<exists>domainName p. \<exists>disk \<in> set (Block stat).
               Domain.GetName (Domain stat) = Inr domainName \<and>
               GetBlockIoTune (Domain stat) (DomainStatsBlock.Name disk) = Inr p \<and>
               labelValues m = [domainName, DomainStatsBlock.Name disk] \<and> flag p))"
  by (intro conjI allI impI)
     (rule block_field_origin [OF assms], assumption,
      rule net_field_origin [OF assms], assumption,
      rule tune_field_origin [OF assms], assumption)

section \<open>Descriptors by part of the function\<close>

lemma infoMetrics_descs:
  "m \<in> set (infoMetrics domainName domainUUID desc info) \<Longrightarrow>
   metricDesc m \<notin> set vcpuDescs \<and> metricDesc m \<notin> set blockDescs \<and>
   metricDesc m \<noteq> libvirtDomainMemoryStatUsedPercentDesc"
  by (auto simp: infoMetrics_def MustNewConstMetric_def vcpuDescs_def blockDescs_def)

lemma vcpuSent_descs:
  "m \<in> set (vcpuSent domainName stat) \<Longrightarrow>
   metricDesc m \<in> set vcpuDescs \<and> metricDesc m \<notin> set blockDescs \<and>
   metricDesc m \<noteq> libvirtDomainMemoryStatUsedPercentDesc"
  by (auto simp: vcpuSent_def vcpuInfoMetrics_def vcpuWaitDelayMetrics_def in_set_guarded
                 MustNewConstMetric_def vcpuDescs_def blockDescs_def
           split: sum.splits)

lemma blockStatMetrics_descs:
  "m \<in> set (blockStatMetrics domainName disk) \<Longrightarrow>
   metricDesc m \<notin> set vcpuDescs \<and> metricDesc m \<in> set blockDescs \<and>
   metricDesc m \<noteq> libvirtDomainMemoryStatUsedPercentDesc"
  by (auto simp: blockStatMetrics_def in_set_guarded MustNewConstMetric_def
                 vcpuDescs_def blockDescs_def)

lemma blockIoTuneMetrics_descs:
  "m \<in> set (blockIoTuneMetrics domainName disk p) \<Longrightarrow>
   metricDesc m \<notin> set vcpuDescs \<and> metricDesc m \<in> set blockDescs \<and>
   metricDesc m \<noteq> libvirtDomainMemoryStatUsedPercentDesc"
  by (auto simp: blockIoTuneMetrics_def in_set_guarded MustNewConstMetric_def
                 vcpuDescs_def blockDescs_def)

lemma blockSent_descs:
  assumes "m \<in> set (blockSent domainName desc stat disk)"
  shows "metricDesc m \<notin> set vcpuDescs \<and> metricDesc m \<in> set blockDescs \<and>
         metricDesc m \<noteq> libvirtDomainMemoryStatUsedPercentDesc \<and>
         labelValues m ! 1 = DomainStatsBlock.Name disk \<and>
         DomainStatsBlock.Name disk \<noteq> ''hda'' \<and> DomainStatsBlock.Name disk \<noteq> ''hdc''"
proof -
  from blockSent_cases [OF assms]
  have n: "DomainStatsBlock.Name disk \<noteq> ''hdc''" "DomainStatsBlock.Name disk \<noteq> ''hda''"
    by simp_all
  from blockSent_cases [OF assms]
  consider DiskSource Device where "m = blockMeta domainName disk DiskSource Device"
    | "m \<in> set (blockStatMetrics domainName disk)"
    | p where "m \<in> set (blockIoTuneMetrics domainName disk p)"
    by blast
  then show ?thesis
  proof cases
    case 1
    with n show ?thesis
      by (simp add: blockMeta_def MustNewConstMetric_def vcpuDescs_def blockDescs_def)
  next
    case 2
    from blockStatMetrics_descs [OF this] blockStatMetrics_flags [OF this] n
    show ?thesis by simp
  next
    case 3
    from blockIoTuneMetrics_descs [OF this] blockIoTuneMetrics_flags [OF this] n
    show ?thesis by simp
  qed
qed

lemma collectInterface_descs:
  "m \<in> set (collectInterface domainName desc iface) \<Longrightarrow>
   metricDesc m \<notin> set vcpuDescs \<and> metricDesc m \<notin> set blockDescs \<and>
   metricDesc m \<noteq> libvirtDomainMemoryStatUsedPercentDesc"
  by (auto simp: collectInterface_def in_set_guarded MustNewConstMetric_def
                 vcpuDescs_def blockDescs_def
           split: prod.splits)

lemma memoryMetrics_descs:
  "m \<in> set (memoryMetrics domainName r) \<Longrightarrow>
   metricDesc m \<notin> set vcpuDescs \<and> metricDesc m \<notin> set blockDescs \<and>
   (metricDesc m = libvirtDomainMemoryStatUsedPercentDesc \<longrightarrow>
      m = MustNewConstMetric libvirtDomainMemoryStatUsedPercentDesc GaugeValue
            (usedPercent r) [domainName])"
  by (auto simp: memoryMetrics_def Let_def MustNewConstMetric_def vcpuDescs_def blockDescs_def)

lemma tailSent_descs:
  assumes "m \<in> set (tailSent domainName desc stat)"
  shows "metricDesc m \<notin> set vcpuDescs \<and> metricDesc m \<notin> set blockDescs \<and>
         (metricDesc m = libvirtDomainMemoryStatUsedPercentDesc \<longrightarrow>
            m = MustNewConstMetric libvirtDomainMemoryStatUsedPercentDesc GaugeValue
                  (usedPercent (MemoryStats (Domain stat))) [domainName])"
proof -
  from assms consider iface where "m \<in> set (collectInterface domainName desc iface)"
    | "m \<in> set (memoryMetrics domainName (MemoryStats (Domain stat)))"
    by (auto simp: tailSent_def)
  then show ?thesis
  proof cases
    case 1
    from collectInterface_descs [OF this] show ?thesis by simp
  next
    case 2
    from memoryMetrics_descs [OF this] show ?thesis by simp
  qed
qed

section \<open>The legacy CD-ROM slots\<close>

text \<open>
  C6. An iteration of the block loop on a device named \<open>hda\<close> or \<open>hdc\<close> ends at
  once: nothing is sent, nothing is logged, no tuning parameters are fetched. And no
  block metric that \<^verbatim>\<open>CollectDomain\<close> sends (metadata, I/O counter or throttle gauge)
  is labelled with such a device: each comes from a bulk entry with another name.
\<close>

theorem cdrom_devices_not_reported:
  "(DomainStatsBlock.Name disk = ''hda'' \<or> DomainStatsBlock.Name disk = ''hdc'' \<longrightarrow>
      collectBlock domainName desc stat disk s = (None, s)) \<and>
   (CollectDomain Unmarshal stat s = (r, s') \<longrightarrow>
      (\<forall>m \<in> set (emitted s s'). metricDesc m \<in> set blockDescs \<longrightarrow>
         labelValues m ! 1 \<noteq> ''hda'' \<and> labelValues m ! 1 \<noteq> ''hdc'' \<and>
         (\<exists>d \<in> set (Block stat). labelValues m ! 1 = DomainStatsBlock.Name d)))"
proof (intro conjI impI ballI)
  assume "DomainStatsBlock.Name disk = ''hda'' \<or> DomainStatsBlock.Name disk = ''hdc''"
  then show "collectBlock domainName desc stat disk s = (None, s)"
    by (auto simp: collectBlock_def)
next
  fix m
  assume run: "CollectDomain Unmarshal stat s = (r, s')"
    and m: "m \<in> set (emitted s s')"
    and b: "metricDesc m \<in> set blockDescs"
  from CollectDomain_emitted [OF run m] obtain domainName domainUUID desc info where
    c: "m \<in> set (infoMetrics domainName domainUUID desc info) \<or>
        m \<in> set (vcpuSent domainName stat) \<or>
        (\<exists>disk \<in> set (Block stat). m \<in> set (blockSent domainName desc stat disk)) \<or>
        m \<in> set (tailSent domainName desc stat)"
    by blast
  have "\<exists>d \<in> set (Block stat). labelValues m ! 1 = DomainStatsBlock.Name d \<and>
          DomainStatsBlock.Name d \<noteq> ''hda'' \<and> DomainStatsBlock.Name d \<noteq> ''hdc''"
    using c
  proof (elim disjE bexE)
    assume "m \<in> set (infoMetrics domainName domainUUID desc info)"
    from infoMetrics_descs [OF this] b show ?thesis by simp
  next
    assume "m \<in> set (vcpuSent domainName stat)"
    from vcpuSent_descs [OF this] b show ?thesis by simp
  next
    fix d
    assume d: "d \<in> set (Block stat)" and "m \<in> set (blockSent domainName desc stat d)"
    from blockSent_descs [OF this(2)] d show ?thesis by blast
  next
    assume "m \<in> set (tailSent domainName desc stat)"
    from tailSent_descs [OF this] b show ?thesis by simp
  qed
  then show "labelValues m ! 1 \<noteq> ''hda''" and "labelValues m ! 1 \<noteq> ''hdc''"
    and "\<exists>d \<in> set (Block stat). labelValues m ! 1 = DomainStatsBlock.Name d"
    by auto
qed

section \<open>A failed GetVcpus\<close>

lemma collectBlock_vcpu_irrelevant:
  "collectBlock domainName desc
     (stat\<lparr>Domain := (Domain stat)\<lparr>GetVcpus := v\<rparr>, Vcpu := vs\<rparr>) disk s =
   collectBlock domainName desc stat disk s"
  by (simp add: collectBlock_def Let_def split: prod.splits option.splits sum.splits)

lemma collectBlocks_vcpu_irrelevant:
  "collectBlocks domainName desc
     (stat\<lparr>Domain := (Domain stat)\<lparr>GetVcpus := v\<rparr>, Vcpu := vs\<rparr>) disks s =
   collectBlocks domainName desc stat disks s"
  by (induction disks arbitrary: s)
     (simp_all add: collectBlock_vcpu_irrelevant split: prod.splits option.splits)

lemma fetch_vcpu_irrelevant:
  "fetch Unmarshal (stat\<lparr>Domain := (Domain stat)\<lparr>GetVcpus := v\<rparr>, Vcpu := vs\<rparr>) =
   fetch Unmarshal stat"
  by (simp add: fetch_def split: sum.splits)

text \<open>
  C9. When \<^verbatim>\<open>GetVcpus\<close> fails with a \<^verbatim>\<open>libvirt.Error\<close> whose code is
  \<^verbatim>\<open>ERR_OPERATION_INVALID\<close>, the virtual CPU part of \<^verbatim>\<open>CollectDomain\<close> sends
  nothing and returns nothing; the whole call behaves as for a domain that reported
  no virtual CPU at all (an empty \<^verbatim>\<open>GetVcpus\<close> result and an empty bulk array), so
  the block devices, interfaces and memory statistics are processed as usual; and no
  metric it sends is a virtual CPU metric, wait and delay included, whatever the
  presence flags in the bulk array are.
\<close>

theorem GetVcpus_invalid_skips_vcpus:
  assumes "GetVcpus (Domain stat) = Inl (LibvirtError ERR_OPERATION_INVALID msg)"
  shows "collectVcpus domainName stat s = (None, s) \<and>
         CollectDomain Unmarshal stat s =
           CollectDomain Unmarshal
             (stat\<lparr>Domain := (Domain stat)\<lparr>GetVcpus := Inr []\<rparr>, Vcpu := []\<rparr>) s \<and>
         (\<forall>m \<in> set (emitted s (snd (CollectDomain Unmarshal stat s))).
            metricDesc m \<notin> set vcpuDescs)"
proof (intro conjI ballI)
  show v: "collectVcpus domainName stat s = (None, s)" for domainName s
    using assms by (simp add: collectVcpus_def)
  have v': "collectVcpus domainName
              (stat\<lparr>Domain := (Domain stat)\<lparr>GetVcpus := Inr []\<rparr>, Vcpu := []\<rparr>) s0 = (None, s0)"
    for domainName s0
    by (simp add: collectVcpus_def send_def)
  have "collectStats domainName desc stat s0 =
        collectStats domainName desc
          (stat\<lparr>Domain := (Domain stat)\<lparr>GetVcpus := Inr []\<rparr>, Vcpu := []\<rparr>) s0"
    for domainName desc s0
    by (simp add: collectStats_def v v' collectBlocks_vcpu_irrelevant
             split: prod.splits option.splits)
  then show "CollectDomain Unmarshal stat s =
      CollectDomain Unmarshal
        (stat\<lparr>Domain := (Domain stat)\<lparr>GetVcpus := Inr []\<rparr>, Vcpu := []\<rparr>) s"
    by (simp add: CollectDomain_fetch fetch_vcpu_irrelevant split: sum.splits)
next
  fix m
  assume m: "m \<in> set (emitted s (snd (CollectDomain Unmarshal stat s)))"
  have run: "CollectDomain Unmarshal stat s =
      (fst (CollectDomain Unmarshal stat s), snd (CollectDomain Unmarshal stat s))"
    by simp
  have e: "vcpuSent domainName stat = []" for domainName
    using assms by (simp add: vcpuSent_def)
  from CollectDomain_emitted [OF run m] obtain domainName domainUUID desc info where
    c: "m \<in> set (infoMetrics domainName domainUUID desc info) \<or>
        m \<in> set (vcpuSent domainName stat) \<or>
        (\<exists>disk \<in> set (Block stat). m \<in> set (blockSent domainName desc stat disk)) \<or>
        m \<in> set (tailSent domainName desc stat)"
    by blast
  then show "metricDesc m \<notin> set vcpuDescs"
    using infoMetrics_descs blockSent_descs tailSent_descs by (auto simp: e)
qed

section \<open>The used-percent gauge\<close>

text \<open>
  C5. \<open>usedPercent\<close> is \<open>(available - usable) / (available / 100)\<close> when the two
  decoded quantities are both not zero, and 0 when one of them is zero or when the
  memory-statistics call failed; with available 100 and usable 25 it is 75. Every
  used-percent metric \<^verbatim>\<open>CollectDomain\<close> sends is the gauge with this value, labelled
  with the domain name, and a call that returns \<^verbatim>\<open>nil\<close> has sent it.
\<close>

theorem usedPercent_gauge:
  "usedPercent (Inl err) = 0 \<and>
   (VirDomainMemoryStats.Available (memoryStatCollect ps) \<noteq> 0 \<and>
    Usable (memoryStatCollect ps) \<noteq> 0 \<longrightarrow>
      usedPercent (Inr ps) =
        (real (VirDomainMemoryStats.Available (memoryStatCollect ps)) -
         real (Usable (memoryStatCollect ps))) /
        (real (VirDomainMemoryStats.Available (memoryStatCollect ps)) / 100)) \<and>
   (VirDomainMemoryStats.Available (memoryStatCollect ps) = 0 \<or>
    Usable (memoryStatCollect ps) = 0 \<longrightarrow> usedPercent (Inr ps) = 0) \<and>
   (VirDomainMemoryStats.Available (memoryStatCollect ps) = 100 \<and>
    Usable (memoryStatCollect ps) = 25 \<longrightarrow> usedPercent (Inr ps) = 75) \<and>
   (CollectDomain Unmarshal stat s = (r, s') \<longrightarrow>
      (\<forall>m \<in> set (emitted s s').
         metricDesc m = libvirtDomainMemoryStatUsedPercentDesc \<longrightarrow>
         (\<exists>domainName. Domain.GetName (Domain stat) = Inr domainName \<and>
            m = MustNewConstMetric libvirtDomainMemoryStatUsedPercentDesc GaugeValue
                  (usedPercent (MemoryStats (Domain stat))) [domainName])) \<and>
      (r = Nil \<longrightarrow>
         (\<exists>domainName. Domain.GetName (Domain stat) = Inr domainName \<and>
            MustNewConstMetric libvirtDomainMemoryStatUsedPercentDesc GaugeValue
              (usedPercent (MemoryStats (Domain stat))) [domainName] \<in> set (emitted s s'))))"
proof (intro conjI impI ballI)
  show "usedPercent (Inl err) = 0" by (simp add: usedPercent_def)
next
  assume "VirDomainMemoryStats.Available (memoryStatCollect ps) \<noteq> 0 \<and>
    Usable (memoryStatCollect ps) \<noteq> 0"
  then show "usedPercent (Inr ps) =
        (real (VirDomainMemoryStats.Available (memoryStatCollect ps)) -
         real (Usable (memoryStatCollect ps))) /
        (real (VirDomainMemoryStats.Available (memoryStatCollect ps)) / 100)"
    by (simp add: usedPercent_def Let_def)
next
  assume "VirDomainMemoryStats.Available (memoryStatCollect ps) = 0 \<or>
    Usable (memoryStatCollect ps) = 0"
  then show "usedPercent (Inr ps) = 0" by (auto simp: usedPercent_def Let_def)
next
  assume "VirDomainMemoryStats.Available (memoryStatCollect ps) = 100 \<and>
    Usable (memoryStatCollect ps) = 25"
  then show "usedPercent (Inr ps) = 75" by (simp add: usedPercent_def Let_def)
next
  fix m
  assume run: "CollectDomain Unmarshal stat s = (r, s')"
    and m: "m \<in> set (emitted s s')"
    and u: "metricDesc m = libvirtDomainMemoryStatUsedPercentDesc"
  from CollectDomain_emitted [OF run m] obtain domainName domainUUID desc info where
    f: "fetch Unmarshal stat = Inr (domainName, domainUUID, desc, info)" and
    c: "m \<in> set (infoMetrics domainName domainUUID desc info) \<or>
        m \<in> set (vcpuSent domainName stat) \<or>
        (\<exists>disk \<in> set (Block stat). m \<in> set (blockSent domainName desc stat disk)) \<or>
        m \<in> set (tailSent domainName desc stat)"
    by blast
  from c u have "m = MustNewConstMetric libvirtDomainMemoryStatUsedPercentDesc GaugeValue
                  (usedPercent (MemoryStats (Domain stat))) [domainName]"
    using infoMetrics_descs vcpuSent_descs blockSent_descs tailSent_descs by blast
  with fetch_GetName [OF f]
  show "\<exists>domainName. Domain.GetName (Domain stat) = Inr domainName \<and>
            m = MustNewConstMetric libvirtDomainMemoryStatUsedPercentDesc GaugeValue
                  (usedPercent (MemoryStats (Domain stat))) [domainName]"
    by blast
next
  assume run: "CollectDomain Unmarshal stat s = (r, s')" and r: "r = Nil"
  from CollectDomain_ch [OF run] r obtain domainName domainUUID desc info blocks where
    f: "fetch Unmarshal stat = Inr (domainName, domainUUID, desc, info)" and
    c: "ch s' = ch s @ infoMetrics domainName domainUUID desc info @
          vcpuSent domainName stat @ blocks @ tailSent domainName desc stat"
    by auto
  have "MustNewConstMetric libvirtDomainMemoryStatUsedPercentDesc GaugeValue
          (usedPercent (MemoryStats (Domain stat))) [domainName]
        \<in> set (tailSent domainName desc stat)"
    by (simp add: tailSent_def memoryMetrics_def Let_def)
  with emitted_append [OF c] fetch_GetName [OF f]
  show "\<exists>domainName. Domain.GetName (Domain stat) = Inr domainName \<and>
            MustNewConstMetric libvirtDomainMemoryStatUsedPercentDesc GaugeValue
              (usedPercent (MemoryStats (Domain stat))) [domainName] \<in> set (emitted s s')"
    by auto
qed

section \<open>Decimal labels identify the index\<close>








section \<open>Virtual CPUs: two sources, one index\<close>







section \<open>A domain to run the collector on\<close>

lemma example_fetch:
  "fetch exampleUnmarshal exampleStat =
     Inr (''vm1'', ''id1'', exampleDesc,
          \<lparr>DomainInfo.State = 1, MaxMem = 2048, Memory = 1024, NrVirtCpu = 4,
           DomainInfo.CpuTime = 5000000000\<rparr>)"
  by (simp add: fetch_def exampleStat_def exampleDomain_def exampleUnmarshal_def)

lemma example_info:
  "infoMetrics ''vm1'' ''id1'' exampleDesc
     \<lparr>DomainInfo.State = 1, MaxMem = 2048, Memory = 1024, NrVirtCpu = 4,
      DomainInfo.CpuTime = 5000000000\<rparr> = take 6 exampleSent"
  by (simp add: infoMetrics_def exampleDesc_def exampleSent_def MustNewConstMetric_def)

lemma example_memory:
  "memoryStatCollect [\<lparr>Tag = 5, Val = 100\<rparr>, \<lparr>Tag = 8, Val = 25\<rparr>, \<lparr>Tag = 9, Val = 7\<rparr>] =
     zeroMemoryStats\<lparr>VirDomainMemoryStats.Available := 100, Usable := 25\<rparr>"
  by (simp add: memoryStatCollect_def memoryStatCase_def)

lemma example_vcpus:
  "collectVcpus ''vm1'' exampleStat s =
     (None, send (take 7 (drop 6 exampleSent)) s)"
  by (simp add: collectVcpus_def exampleStat_def exampleDomain_def exampleSent_def send_def
                vcpuInfoMetrics_def vcpuWaitDelayMetrics_def enumerate_eq_zip
                FormatInt_def digits.simps digit_def MustNewConstMetric_def)

lemma example_blocks:
  "collectBlocks ''vm1'' exampleDesc exampleStat (Block exampleStat) s =
     (None, send (take 3 (drop 13 exampleSent)) s)"
  by (simp add: collectBlock_def exampleStat_def exampleDomain_def exampleDesc_def
                exampleSent_def send_def zeroBlock_def zeroTune_def blockMeta_def
                blockStatMetrics_def blockIoTuneMetrics_def MustNewConstMetric_def)

lemma example_tail:
  "tailSent ''vm1'' exampleDesc exampleStat = drop 16 exampleSent"
  by (simp add: tailSent_def collectInterface_def memoryMetrics_def usedPercent_def Let_def
                example_memory zeroMemoryStats_def exampleStat_def exampleDomain_def
                exampleDesc_def exampleSent_def zeroNet_def MustNewConstMetric_def)

lemma example_run:
  "CollectDomain exampleUnmarshal exampleStat emptyState = (Nil, emptyState\<lparr>ch := exampleSent\<rparr>)"
proof -
  note i = example_info
  have t: "concat (map (collectInterface ''vm1'' exampleDesc) (Net exampleStat)) @
           memoryMetrics ''vm1'' (MemoryStats (Domain exampleStat)) = drop 16 exampleSent"
    using example_tail by (simp add: tailSent_def)
  have l: "take 6 exampleSent @ take 7 (drop 6 exampleSent) @ take 3 (drop 13 exampleSent) @
           drop 16 exampleSent = exampleSent"
    by (simp add: exampleSent_def)
  have "CollectDomain exampleUnmarshal exampleStat emptyState =
        (Nil, emptyState\<lparr>ch := take 6 exampleSent @ take 7 (drop 6 exampleSent) @
                 take 3 (drop 13 exampleSent) @ drop 16 exampleSent\<rparr>)"
    by (simp add: CollectDomain_fetch example_fetch collectStats_def example_vcpus
                  example_blocks i send_def emptyState_def t [symmetric])
  then show ?thesis by (simp only: l)
qed

lemma example_emitted:
  "emitted emptyState (emptyState\<lparr>ch := exampleSent\<rparr>) = exampleSent"
  by (simp add: emitted_def emptyState_def)

section \<open>The collector on the example domain\<close>

theorem absent_field_not_emitted_witness:
  "CollectDomain exampleUnmarshal exampleStat emptyState = (Nil, emptyState\<lparr>ch := exampleSent\<rparr>) \<and>
   MustNewConstMetric libvirtDomainBlockRdBytesDesc CounterValue 4096 [''vm1'', ''vda'']
     \<in> set exampleSent \<and>
   (\<exists>domainName. \<exists>disk \<in> set (Block exampleStat).
      Domain.GetName (Domain exampleStat) = Inr domainName \<and>
      [''vm1'', ''vda''] = [domainName, DomainStatsBlock.Name disk] \<and> RdBytesSet disk) \<and>
   \<not> (\<exists>m \<in> set exampleSent. metricDesc m = libvirtDomainBlockWrBytesDesc) \<and>
   \<not> (\<exists>m \<in> set exampleSent. metricDesc m = libvirtDomainInterfaceTxBytesDesc) \<and>
   \<not> (\<exists>m \<in> set exampleSent. metricDesc m = libvirtDomainBlockReadBytesSecDesc)"
proof -
  let ?m = "MustNewConstMetric libvirtDomainBlockRdBytesDesc CounterValue 4096 [''vm1'', ''vda'']"
  note inst = absent_field_not_emitted [OF example_run, unfolded example_emitted]
  have m: "?m \<in> set exampleSent" by (simp add: exampleSent_def)
  have "blockFlag (metricDesc ?m) = Some RdBytesSet"
    by (simp add: blockFlag_def MustNewConstMetric_def)
  with inst [OF m]
  have a: "\<exists>domainName. \<exists>disk \<in> set (Block exampleStat).
      Domain.GetName (Domain exampleStat) = Inr domainName \<and>
      [''vm1'', ''vda''] = [domainName, DomainStatsBlock.Name disk] \<and> RdBytesSet disk"
    by (simp add: MustNewConstMetric_def)
  have b: "\<not> (\<exists>m \<in> set exampleSent. metricDesc m = libvirtDomainBlockWrBytesDesc)"
  proof
    assume "\<exists>m \<in> set exampleSent. metricDesc m = libvirtDomainBlockWrBytesDesc"
    then obtain m where m: "m \<in> set exampleSent"
      and "blockFlag (metricDesc m) = Some WrBytesSet"
      by (auto simp: blockFlag_def)
    with inst [OF m(1)] have "\<exists>disk \<in> set (Block exampleStat). WrBytesSet disk" by blast
    then show False by (simp add: exampleStat_def zeroBlock_def)
  qed
  have c: "\<not> (\<exists>m \<in> set exampleSent. metricDesc m = libvirtDomainInterfaceTxBytesDesc)"
  proof
    assume "\<exists>m \<in> set exampleSent. metricDesc m = libvirtDomainInterfaceTxBytesDesc"
    then obtain m where m: "m \<in> set exampleSent"
      and "netFlag (metricDesc m) = Some TxBytesSet"
      by (auto simp: netFlag_def)
    with inst [OF m(1)] have "\<exists>iface \<in> set (Net exampleStat). TxBytesSet iface" by blast
    then show False by (simp add: exampleStat_def zeroNet_def)
  qed
  have d: "\<not> (\<exists>m \<in> set exampleSent. metricDesc m = libvirtDomainBlockReadBytesSecDesc)"
  proof
    assume "\<exists>m \<in> set exampleSent. metricDesc m = libvirtDomainBlockReadBytesSecDesc"
    then obtain m where m: "m \<in> set exampleSent"
      and "tuneFlag (metricDesc m) = Some ReadBytesSecSet"
      by (auto simp: tuneFlag_def)
    with inst [OF m(1)] have "\<exists>p. \<exists>disk \<in> set (Block exampleStat).
        GetBlockIoTune (Domain exampleStat) (DomainStatsBlock.Name disk) = Inr p \<and>
        ReadBytesSecSet p"
      by blast
    then show False by (auto simp: exampleStat_def exampleDomain_def zeroTune_def)
  qed
  from example_run m a b c d show ?thesis by (intro conjI)
qed

theorem usedPercent_gauge_witness:
  "usedPercent (Inr [\<lparr>Tag = 5, Val = 100\<rparr>, \<lparr>Tag = 8, Val = 25\<rparr>, \<lparr>Tag = 9, Val = 7\<rparr>]) = 75 \<and>
   usedPercent (Inr [\<lparr>Tag = 5, Val = 100\<rparr>]) = 0 \<and>
   MustNewConstMetric libvirtDomainMemoryStatUsedPercentDesc GaugeValue 75 [''vm1'']
     \<in> set exampleSent"
proof -
  let ?ps = "[\<lparr>Tag = 5, Val = 100\<rparr>, \<lparr>Tag = 8, Val = 25\<rparr>, \<lparr>Tag = 9, Val = 7\<rparr>]"
  note inst = usedPercent_gauge [where ps = ?ps and Unmarshal = exampleUnmarshal
      and stat = exampleStat and s = emptyState and r = Nil
      and s' = "emptyState\<lparr>ch := exampleSent\<rparr>"]
  have h: "VirDomainMemoryStats.Available (memoryStatCollect ?ps) = 100 \<and>
           Usable (memoryStatCollect ?ps) = 25"
    by (simp add: example_memory)
  with inst have a: "usedPercent (Inr ?ps) = 75" by blast
  have "Usable (memoryStatCollect [\<lparr>Tag = 5, Val = 100\<rparr>]) = 0"
    by (simp add: memoryStatCollect_def memoryStatCase_def zeroMemoryStats_def)
  with usedPercent_gauge [where ps = "[\<lparr>Tag = 5, Val = 100\<rparr>]"]
  have b: "usedPercent (Inr [\<lparr>Tag = 5, Val = 100\<rparr>]) = 0" by blast
  have "MemoryStats (Domain exampleStat) = Inr ?ps"
    by (simp add: exampleStat_def exampleDomain_def)
  with inst example_run a
  have c: "MustNewConstMetric libvirtDomainMemoryStatUsedPercentDesc GaugeValue 75 [''vm1'']
     \<in> set exampleSent"
    by (simp add: example_emitted exampleStat_def exampleDomain_def)
  from a b c show ?thesis by (intro conjI)
qed

theorem cdrom_devices_not_reported_witness:
  "zeroBlock\<lparr>DomainStatsBlock.Name := ''hda'', RdBytesSet := True, RdBytes := 7\<rparr>
     \<in> set (Block exampleStat) \<and>
   collectBlock ''vm1'' exampleDesc exampleStat
     (zeroBlock\<lparr>DomainStatsBlock.Name := ''hda'', RdBytesSet := True, RdBytes := 7\<rparr>)
     emptyState = (None, emptyState) \<and>
   \<not> (\<exists>m \<in> set exampleSent. metricDesc m \<in> set blockDescs \<and> labelValues m ! 1 = ''hda'') \<and>
   (\<exists>m \<in> set exampleSent. metricDesc m \<in> set blockDescs \<and> labelValues m ! 1 = ''vda'')"
proof -
  let ?hda = "zeroBlock\<lparr>DomainStatsBlock.Name := ''hda'', RdBytesSet := True, RdBytes := 7\<rparr>"
  note inst = cdrom_devices_not_reported [where disk = ?hda and domainName = "''vm1''"
      and desc = exampleDesc and stat = exampleStat and s = emptyState
      and Unmarshal = exampleUnmarshal and r = Nil and s' = "emptyState\<lparr>ch := exampleSent\<rparr>",
      unfolded example_emitted]
  have a: "?hda \<in> set (Block exampleStat)" by (simp add: exampleStat_def)
  have "DomainStatsBlock.Name ?hda = ''hda''" by simp
  with inst have b: "collectBlock ''vm1'' exampleDesc exampleStat ?hda emptyState = (None, emptyState)"
    by blast
  from inst example_run
  have c: "\<not> (\<exists>m \<in> set exampleSent. metricDesc m \<in> set blockDescs \<and> labelValues m ! 1 = ''hda'')"
    by blast
  have d: "\<exists>m \<in> set exampleSent. metricDesc m \<in> set blockDescs \<and> labelValues m ! 1 = ''vda''"
    by (rule bexI [where x = "MustNewConstMetric libvirtDomainBlockRdBytesDesc CounterValue 4096
          [''vm1'', ''vda'']"])
       (simp_all add: exampleSent_def MustNewConstMetric_def blockDescs_def)
  from a b c d show ?thesis by (intro conjI)
qed


section \<open>The example domain when GetVcpus is not valid\<close>

lemma invalid_run:
  "CollectDomain exampleUnmarshal invalidStat emptyState =
     (Nil, emptyState\<lparr>ch := take 6 exampleSent @ drop 13 exampleSent\<rparr>)"
proof -
  have f: "fetch exampleUnmarshal invalidStat = fetch exampleUnmarshal exampleStat"
    unfolding invalidStat_def by (rule fetch_vcpu_irrelevant)
  have v: "collectVcpus ''vm1'' invalidStat s = (None, s)" for s
    by (simp add: collectVcpus_def invalidStat_def)
  have "collectBlocks ''vm1'' exampleDesc invalidStat (Block exampleStat) s =
        collectBlocks ''vm1'' exampleDesc exampleStat (Block exampleStat) s" for s
    unfolding invalidStat_def by (rule collectBlocks_vcpu_irrelevant)
  moreover have "Block invalidStat = Block exampleStat" by (simp add: invalidStat_def)
  ultimately
  have b: "collectBlocks ''vm1'' exampleDesc invalidStat (Block invalidStat) s =
        (None, send (take 3 (drop 13 exampleSent)) s)" for s
    by (simp add: example_blocks)
  note i = example_info
  have "tailSent ''vm1'' exampleDesc invalidStat = tailSent ''vm1'' exampleDesc exampleStat"
    by (simp add: tailSent_def invalidStat_def)
  then have t: "concat (map (collectInterface ''vm1'' exampleDesc) (Net invalidStat)) @
           memoryMetrics ''vm1'' (MemoryStats (Domain invalidStat)) = drop 16 exampleSent"
    using example_tail by (simp add: tailSent_def)
  have l: "take 6 exampleSent @ take 3 (drop 13 exampleSent) @ drop 16 exampleSent =
           take 6 exampleSent @ drop 13 exampleSent"
    by (simp add: exampleSent_def)
  have "CollectDomain exampleUnmarshal invalidStat emptyState =
        (Nil, emptyState\<lparr>ch := take 6 exampleSent @ take 3 (drop 13 exampleSent) @
                 drop 16 exampleSent\<rparr>)"
    by (simp add: CollectDomain_fetch f example_fetch collectStats_def v b i send_def
                  emptyState_def t [symmetric])
  then show ?thesis by (simp only: l)
qed

theorem GetVcpus_invalid_skips_vcpus_witness:
  "GetVcpus (Domain invalidStat) =
     Inl (LibvirtError ERR_OPERATION_INVALID ''domain is not running'') \<and>
   WaitSet (Vcpu invalidStat ! 0) \<and> DelaySet (Vcpu invalidStat ! 0) \<and>
   collectVcpus ''vm1'' invalidStat emptyState = (None, emptyState) \<and>
   CollectDomain exampleUnmarshal invalidStat emptyState =
     (Nil, emptyState\<lparr>ch := take 6 exampleSent @ drop 13 exampleSent\<rparr>) \<and>
   \<not> (\<exists>m \<in> set (take 6 exampleSent @ drop 13 exampleSent). metricDesc m \<in> set vcpuDescs)"
proof -
  have g: "GetVcpus (Domain invalidStat) =
     Inl (LibvirtError ERR_OPERATION_INVALID ''domain is not running'')"
    by (simp add: invalidStat_def)
  note inst = GetVcpus_invalid_skips_vcpus [OF g, where Unmarshal = exampleUnmarshal
      and s = emptyState and domainName = "''vm1''"]
  have w: "WaitSet (Vcpu invalidStat ! 0)" "DelaySet (Vcpu invalidStat ! 0)"
    by (simp_all add: invalidStat_def)
  from inst have a: "collectVcpus ''vm1'' invalidStat emptyState = (None, emptyState)"
    by blast
  have e: "emitted emptyState (emptyState\<lparr>ch := take 6 exampleSent @ drop 13 exampleSent\<rparr>) =
      take 6 exampleSent @ drop 13 exampleSent"
    by (simp add: emitted_def emptyState_def)
  from inst
  have "\<forall>m \<in> set (emitted emptyState (snd (CollectDomain exampleUnmarshal invalidStat emptyState))).
          metricDesc m \<notin> set vcpuDescs"
    by blast
  then have b: "\<not> (\<exists>m \<in> set (take 6 exampleSent @ drop 13 exampleSent).
      metricDesc m \<in> set vcpuDescs)"
    unfolding invalid_run snd_conv e by blast
  from g w a invalid_run b show ?thesis by (intro conjI)
qed

section \<open>A throttle fetch that is not supported\<close>

lemma blockIoTuneError_libvirt: "blockIoTuneError (LibvirtError code msg) s = (None, s)"
  by (simp add: blockIoTuneError_def)

lemma unsupported_blocks:
  "collectBlocks ''vm1'' exampleDesc unsupportedStat (Block unsupportedStat) s =
     (None,
      send [MustNewConstMetric libvirtDomainMetaBlockDesc GaugeValue 1
              [''vm1'', ''vdb'', [], ''s2'', ''virtio'', ''file'', ''qcow2'', ''none'', []]]
        (send [MustNewConstMetric libvirtDomainMetaBlockDesc GaugeValue 1
                 [''vm1'', ''vda'', ''pool/vol1'', ''s1'', ''virtio'', ''network'', ''raw'',
                  ''none'', ''unmap'']] s))"
  by (simp add: collectBlock_def unsupportedStat_def exampleStat_def exampleDomain_def
                exampleDesc_def zeroBlock_def blockMeta_def blockStatMetrics_def
                blockIoTuneError_libvirt send_def)

text \<open>
  C2, on the code. Both fetches fail as unsupported, both devices are processed and
  the call returns \<^verbatim>\<open>nil\<close>; but no line is logged, not even for the first failure,
  and the tag is not recorded in \<^verbatim>\<open>errorsMap\<close>: the \<^verbatim>\<open>switch\<close> that would call
  \<^verbatim>\<open>WriteErrorOnce\<close> is under \<^verbatim>\<open>if !ok\<close>, and \<^verbatim>\<open>ok\<close> holds for a
  \<^verbatim>\<open>libvirt.Error\<close>.
\<close>

theorem unsupported_fetch_never_logged:
  "GetBlockIoTune (Domain unsupportedStat) ''vda'' =
     Inl (LibvirtError ERR_OPERATION_UNSUPPORTED ''not supported by this driver'') \<and>
   GetBlockIoTune (Domain unsupportedStat) ''vdb'' =
     Inl (LibvirtError ERR_OPERATION_UNSUPPORTED ''not supported by this driver'') \<and>
   fst (CollectDomain exampleUnmarshal unsupportedStat emptyState) = Nil \<and>
   map (\<lambda>m. labelValues m ! 1)
     (filter (\<lambda>m. metricDesc m = libvirtDomainMetaBlockDesc)
        (ch (snd (CollectDomain exampleUnmarshal unsupportedStat emptyState)))) =
     [''vda'', ''vdb''] \<and>
   logs (snd (CollectDomain exampleUnmarshal unsupportedStat emptyState)) = [] \<and>
   errorsMap (snd (CollectDomain exampleUnmarshal unsupportedStat emptyState)) = {}"
proof -
  have f: "fetch exampleUnmarshal unsupportedStat = fetch exampleUnmarshal exampleStat"
    by (simp add: fetch_def unsupportedStat_def split: sum.splits)
  have v: "collectVcpus ''vm1'' unsupportedStat s = collectVcpus ''vm1'' exampleStat s" for s
    by (simp add: collectVcpus_def unsupportedStat_def split: sum.splits)
  have r: "CollectDomain exampleUnmarshal unsupportedStat emptyState =
      (Nil,
       send (tailSent ''vm1'' exampleDesc unsupportedStat)
         (send [MustNewConstMetric libvirtDomainMetaBlockDesc GaugeValue 1
                  [''vm1'', ''vdb'', [], ''s2'', ''virtio'', ''file'', ''qcow2'', ''none'', []]]
            (send [MustNewConstMetric libvirtDomainMetaBlockDesc GaugeValue 1
                     [''vm1'', ''vda'', ''pool/vol1'', ''s1'', ''virtio'', ''network'', ''raw'',
                      ''none'', ''unmap'']]
               (send (take 7 (drop 6 exampleSent))
                  (send (take 6 exampleSent) emptyState)))))"
    by (simp add: CollectDomain_fetch f example_fetch collectStats_def v example_vcpus
                  unsupported_blocks example_info tailSent_def send_def)
  have t: "tailSent ''vm1'' exampleDesc unsupportedStat = drop 16 exampleSent"
    using example_tail by (simp add: tailSent_def unsupportedStat_def)
  show ?thesis
    unfolding r t
    by (simp add: unsupportedStat_def send_def emptyState_def exampleSent_def
                  MustNewConstMetric_def)
qed

section \<open>A bulk-reported device without a descriptor entry\<close>

text \<open>
  C3, on the code. The search finds no entry, \<^verbatim>\<open>Device\<close> stays \<^verbatim>\<open>nil\<close> and
  \<^verbatim>\<open>Device.Serial\<close> panics: the call ends with the nil dereference instead of
  skipping the device. Nothing is logged, and the remaining device \<open>vda\<close> is never
  processed: the channel holds the domain info and virtual CPU metrics only.
\<close>

theorem unmatched_device_panics:
  "findDisk (zeroBlock\<lparr>DomainStatsBlock.Name := ''vdz''\<rparr>) (Devices_Disks exampleDesc) =
     ([], None) \<and>
   CollectDomain exampleUnmarshal unmatchedStat emptyState =
     (NilDeref, emptyState\<lparr>ch := take 13 exampleSent\<rparr>) \<and>
   filter (\<lambda>m. metricDesc m \<in> set blockDescs) (take 13 exampleSent) = []"
proof -
  have a: "findDisk (zeroBlock\<lparr>DomainStatsBlock.Name := ''vdz''\<rparr>) (Devices_Disks exampleDesc) =
     ([], None)"
    by (simp add: exampleDesc_def zeroBlock_def)
  have f: "fetch exampleUnmarshal unmatchedStat = fetch exampleUnmarshal exampleStat"
    by (simp add: fetch_def unmatchedStat_def split: sum.splits)
  have v: "collectVcpus ''vm1'' unmatchedStat s = collectVcpus ''vm1'' exampleStat s" for s
    by (simp add: collectVcpus_def unmatchedStat_def split: sum.splits)
  have b: "collectBlocks ''vm1'' exampleDesc unmatchedStat (Block unmatchedStat) s =
      (Some NilDeref, s)" for s
    by (simp add: unmatchedStat_def collectBlock_def a)
  note i = example_info
  have l: "take 6 exampleSent @ take 7 (drop 6 exampleSent) = take 13 exampleSent"
    by (simp add: exampleSent_def)
  have "CollectDomain exampleUnmarshal unmatchedStat emptyState =
     (NilDeref, emptyState\<lparr>ch := take 6 exampleSent @ take 7 (drop 6 exampleSent)\<rparr>)"
    by (simp add: CollectDomain_fetch f example_fetch collectStats_def v example_vcpus b i
                  send_def emptyState_def)
  then have c: "CollectDomain exampleUnmarshal unmatchedStat emptyState =
     (NilDeref, emptyState\<lparr>ch := take 13 exampleSent\<rparr>)"
    by (simp only: l)
  have d: "filter (\<lambda>m. metricDesc m \<in> set blockDescs) (take 13 exampleSent) = []"
    by (simp add: exampleSent_def MustNewConstMetric_def blockDescs_def)
  from a c d show ?thesis by (intro conjI)
qed

end
